theory Spec2Isabelle
  imports Complex_Main "HOL-Library.Word"
begin

section \<open>JavaScript values, errors and the transport\<close>

text \<open>
  The values that reach the services from a JSON request body or from a direct caller.
  Numbers are the finite ones, as reals. \<open>JObject\<close> stands for any array or plain object
  (none of them carries a callable \<open>substring\<close> or \<open>trim\<close>), with what converting
  it to a string gives: \<open>None\<close> when the conversion throws, as it does for an object
  whose own \<open>toString\<close> is not callable (the JSON \<open>{"toString": 1}\<close>).
\<close>

datatype js_value = JUndefined | JNull | JBool bool | JNumber real | JString string
  | JObject "string option"

text \<open>\<open>!v\<close> is \<open>\<not> truthy v\<close>.\<close>

fun truthy :: "js_value \<Rightarrow> bool" where
  "truthy JUndefined = False"
| "truthy JNull = False"
| "truthy (JBool b) = b"
| "truthy (JNumber x) = (x \<noteq> 0)"
| "truthy (JString s) = (s \<noteq> [])"
| "truthy (JObject ob) = True"

fun typeof :: "js_value \<Rightarrow> string" where
  "typeof JUndefined = ''undefined''"
| "typeof JNull = ''object''"
| "typeof (JBool b) = ''boolean''"
| "typeof (JNumber x) = ''number''"
| "typeof (JString s) = ''string''"
| "typeof (JObject ob) = ''object''"

text \<open>The string behind a value whose \<open>typeof\<close> has been checked to be \<open>string\<close>.\<close>

fun str_of :: "js_value \<Rightarrow> string" where
  "str_of (JString s) = s"
| "str_of v = []"

fun num_of :: "js_value \<Rightarrow> real" where
  "num_of (JNumber x) = x"
| "num_of v = 0"

text \<open>A default parameter value replaces \<open>undefined\<close> only.\<close>

definition default_to :: "js_value \<Rightarrow> js_value \<Rightarrow> js_value" where
  "default_to d v = (if v = JUndefined then d else v)"

text \<open>\<open>a || b\<close>\<close>

definition js_or :: "js_value \<Rightarrow> js_value \<Rightarrow> js_value" where
  "js_or a b = (if truthy a then a else b)"

text \<open>
  \<open>String.prototype.trim\<close>. A string is a list of 8-bit code units, so the white space
  is the part of JavaScript's that fits in one: tab, line feed, vertical tab, form feed,
  carriage return, space and no-break space.
\<close>

definition is_ws :: "char \<Rightarrow> bool" where
  "is_ws c = (c \<in> set [CHR 0x09, CHR 0x0A, CHR 0x0B, CHR 0x0C, CHR 0x0D, CHR 0x20, CHR 0xA0])"

definition js_trim :: "string \<Rightarrow> string" where
  "js_trim s = rev (dropWhile is_ws (rev (dropWhile is_ws s)))"

text \<open>A number in a template literal, for the natural numbers.\<close>

fun show_nat :: "nat \<Rightarrow> string" where
  "show_nat n =
     (if n < 10 then [''0123456789'' ! n]
      else show_nat (n div 10) @ [''0123456789'' ! (n mod 10)])"

text \<open>
  An HTTP response as axios hands it over, and the error object axios rejects with:
  \<open>response\<close> is present when the provider answered, \<open>code\<close> when the failure is a
  network one. \<open>new Error(m)\<close> has neither.
\<close>

record 'd axios_response =
  status :: nat
  data :: 'd
  headers :: "(string \<times> string) list"

record 'd js_error =
  name :: string
  message :: string
  code :: "string option"
  response :: "'d axios_response option"

definition new_Error :: "string \<Rightarrow> 'd js_error" where
  "new_Error m = \<lparr>name = ''Error'', message = m, code = None, response = None\<rparr>"

definition new_TypeError :: "string \<Rightarrow> 'd js_error" where
  "new_TypeError m = \<lparr>name = ''TypeError'', message = m, code = None, response = None\<rparr>"

text \<open>The first line of \<open>error.stack\<close>; the frames below it are not modelled.\<close>

definition stack :: "'d js_error \<Rightarrow> string" where
  "stack e = name e @ '': '' @ message e"

text \<open>
  \<open>v.m(...)\<close> for a method \<open>m\<close> of strings, as the log lines call it before any check:
  a TypeError on everything that is not a string.
\<close>

fun string_method :: "string \<Rightarrow> js_value \<Rightarrow> 'd js_error + string" where
  "string_method m (JString s) = Inr s"
| "string_method m JUndefined =
     Inl (new_TypeError (''Cannot read properties of undefined (reading '' @ m @ '')''))"
| "string_method m JNull =
     Inl (new_TypeError (''Cannot read properties of null (reading '' @ m @ '')''))"
| "string_method m v = Inl (new_TypeError (m @ '' is not a function''))"

text \<open>
  \<open>${v}\<close> in a template literal of a log line. What is logged is not modelled, only
  whether converting \<open>v\<close> to a string throws.
\<close>

fun interpolate :: "js_value \<Rightarrow> 'd js_error + unit" where
  "interpolate (JObject None) = Inl (new_TypeError ''Cannot convert object to primitive value'')"
| "interpolate v = Inr ()"

text \<open>
  The request axios is called with, and the transport behind it: the outcome of the
  \<open>n\<close>-th call (counted from 0) on a request, \<open>Inl\<close> a rejection. The network state
  counts the transport calls and the milliseconds slept.
\<close>

record 'p axios_config =
  cfg_method :: string
  cfg_url :: string
  cfg_timeout :: nat
  cfg_headers :: "(string \<times> string option) list"
  cfg_data :: "'p option"

type_synonym ('p, 'd) transport = "nat \<Rightarrow> 'p axios_config \<Rightarrow> 'd js_error + 'd axios_response"

record net =
  calls :: nat
  slept :: nat

definition axios :: "('p, 'd) transport \<Rightarrow> 'p axios_config \<Rightarrow> net
    \<Rightarrow> ('d js_error + 'd axios_response) \<times> net" where
  "axios tr cfg s = (tr (calls s) cfg, s\<lparr>calls := Suc (calls s)\<rparr>)"

definition sleep :: "nat \<Rightarrow> net \<Rightarrow> net" where
  "sleep ms s = s\<lparr>slept := slept s + ms\<rparr>"

text \<open>What \<open>Date.now\<close>, \<open>Math.random\<close> and \<open>new Date\<close> give to one call.\<close>

record env =
  fresh_id :: string
  random_seed :: nat
  now_iso :: string

section \<open>FalClientService\<close>

record FalClientService =
  fc_baseURL :: string
  fc_apiKey :: string
  fc_timeout :: nat
  fc_maxRetries :: nat

text \<open>The constructor with \<open>_validateApiKey\<close>: it throws on a missing or short key.\<close>

definition FalClientService_new :: "string option \<Rightarrow> unit js_error + FalClientService" where
  "FalClientService_new FAL_KEY =
     (case FAL_KEY of
        None \<Rightarrow> Inl (new_Error ''FAL_KEY not configured'')
      | Some k \<Rightarrow>
          if k = [] then Inl (new_Error ''FAL_KEY not configured'')
          else if length k < 10 then Inl (new_Error ''FAL_KEY format invalid'')
          else Inr \<lparr>fc_baseURL = ''https://fal.run'', fc_apiKey = k,
                     fc_timeout = 60000, fc_maxRetries = 1\<rparr>)"

record fal_data =
  video_url :: js_value
  request_id :: js_value
  estimated_time :: js_value
  data_error :: "string option"

record fal_payload =
  pl_prompt :: string
  pl_num_frames :: int
  pl_aspect_ratio :: js_value
  pl_guidance_scale :: real
  pl_num_inference_steps :: nat
  pl_negative_prompt :: string
  pl_seed :: nat

type_synonym fal_error = "fal_data option js_error"
type_synonym fal_response = "fal_data option axios_response"
type_synonym fal_transport = "(fal_payload, fal_data option) transport"

definition fc_request :: "FalClientService \<Rightarrow> string \<Rightarrow> fal_payload \<Rightarrow> fal_payload axios_config" where
  "fc_request svc endpoint d =
     \<lparr>cfg_method = ''POST'', cfg_url = fc_baseURL svc @ endpoint, cfg_timeout = fc_timeout svc,
      cfg_headers = [(''Authorization'', Some (''Bearer '' @ fc_apiKey svc)),
                     (''Content-Type'', Some ''application/json''),
                     (''User-Agent'', Some ''FayStar-Backend/1.0'')],
      cfg_data = Some d\<rparr>"

text \<open>The statuses \<open>_makeRequestWithRetry\<close> rethrows at once.\<close>

definition no_retry :: "'d js_error \<Rightarrow> bool" where
  "no_retry error =
     (case response error of
        None \<Rightarrow> False
      | Some r \<Rightarrow> status r = 401 \<or> status r = 403 \<or> status r = 402 \<or> status r = 429)"

text \<open>
  The loop of \<open>_makeRequestWithRetry\<close> from \<open>attempt\<close> on. \<open>Inl None\<close> is
  \<open>throw lastError\<close> with \<open>lastError\<close> still \<open>null\<close>.
\<close>

function retry_loop :: "FalClientService \<Rightarrow> fal_transport \<Rightarrow> string \<Rightarrow> fal_payload
    \<Rightarrow> nat \<Rightarrow> fal_error option \<Rightarrow> net \<Rightarrow> (fal_error option + fal_response) \<times> net" where
  "retry_loop svc tr endpoint d attempt lastError s =
     (if attempt \<le> fc_maxRetries svc + 1 then
        (case axios tr (fc_request svc endpoint d) s of
           (Inr resp, s1) \<Rightarrow> (Inr resp, s1)
         | (Inl error, s1) \<Rightarrow>
             if no_retry error then (Inl (Some error), s1)
             else retry_loop svc tr endpoint d (attempt + 1) (Some error)
                    (if attempt \<le> fc_maxRetries svc then sleep 2000 s1 else s1))
      else (Inl lastError, s))"
  by pat_completeness auto
termination
  by (relation "measure (\<lambda>(svc, tr, endpoint, d, attempt, lastError, s). fc_maxRetries svc + 2 - attempt)") auto

definition makeRequestWithRetry :: "FalClientService \<Rightarrow> fal_transport \<Rightarrow> string \<Rightarrow> fal_payload
    \<Rightarrow> net \<Rightarrow> (fal_error option + fal_response) \<times> net" where
  "makeRequestWithRetry svc tr endpoint d s = retry_loop svc tr endpoint d 1 None s"

record handled =
  h_type :: string
  h_message :: string
  h_details :: js_value

definition fc_handleError :: "FalClientService \<Rightarrow> fal_error \<Rightarrow> handled" where
  "fc_handleError svc error =
     (case response error of
        Some r \<Rightarrow>
          (let statusCode = status r;
               errorData = (case data r of None \<Rightarrow> JUndefined
                            | Some d \<Rightarrow> (case data_error d of None \<Rightarrow> JUndefined | Some m \<Rightarrow> JString m))
           in if statusCode = 401 then
                \<lparr>h_type = ''INVALID_API_KEY'', h_message = ''Invalid Fal.ai API key'',
                 h_details = js_or errorData (JString ''Authentication failed'')\<rparr>
              else if statusCode = 403 then
                \<lparr>h_type = ''ACCESS_DENIED'', h_message = ''Access denied - API key may be disabled'',
                 h_details = js_or errorData (JString ''Forbidden'')\<rparr>
              else if statusCode = 402 then
                \<lparr>h_type = ''NO_CREDITS'', h_message = ''No credits or billing required'',
                 h_details = js_or errorData (JString ''Payment required'')\<rparr>
              else if statusCode = 429 then
                \<lparr>h_type = ''RATE_LIMITED'', h_message = ''Rate limit exceeded - too many requests'',
                 h_details = js_or errorData (JString ''Too many requests'')\<rparr>
              else if statusCode = 500 \<or> statusCode = 502 \<or> statusCode = 503 \<or> statusCode = 504 then
                \<lparr>h_type = ''SERVER_ERROR'',
                 h_message = ''Fal.ai server error ('' @ show_nat statusCode @ '')'',
                 h_details = js_or errorData (JString ''Server error'')\<rparr>
              else
                \<lparr>h_type = ''API_ERROR'',
                 h_message = ''Fal.ai API error ('' @ show_nat statusCode @ '')'',
                 h_details = js_or errorData (JString ''Unknown API error'')\<rparr>)
      | None \<Rightarrow>
          (case code error of
             Some c \<Rightarrow>
               if c = [] then
                 \<lparr>h_type = ''UNKNOWN_ERROR'', h_message = ''Unexpected error: '' @ message error,
                  h_details = JString (stack error)\<rparr>
               else if c = ''ECONNABORTED'' then
                 \<lparr>h_type = ''TIMEOUT'', h_message = ''Request timeout - Fal.ai API not responding'',
                  h_details = JString (''Timeout after '' @ show_nat (fc_timeout svc) @ ''ms'')\<rparr>
               else if c = ''ENOTFOUND'' \<or> c = ''ECONNREFUSED'' then
                 \<lparr>h_type = ''NETWORK_ERROR'', h_message = ''Network error - unable to connect to Fal.ai'',
                  h_details = JString c\<rparr>
               else
                 \<lparr>h_type = ''NETWORK_ERROR'', h_message = ''Network error: '' @ message error,
                  h_details = JString c\<rparr>
           | None \<Rightarrow>
               \<lparr>h_type = ''UNKNOWN_ERROR'', h_message = ''Unexpected error: '' @ message error,
                h_details = JString (stack error)\<rparr>))"


text \<open>
  \<open>_validateInput\<close> of FalClientService. The one of FalVideoService has the same five
  checks, followed by a check of the key (\<open>fv_validateInput\<close> below).
\<close>

definition fc_validateInput :: "js_value \<Rightarrow> js_value \<Rightarrow> js_value \<Rightarrow> fal_error + unit" where
  "fc_validateInput prompt duration aspectRatio =
     (if \<not> truthy prompt \<or> typeof prompt \<noteq> ''string'' then
        Inl (new_Error ''Prompt is required and must be a string'')
      else if length (js_trim (str_of prompt)) = 0 then
        Inl (new_Error ''Prompt cannot be empty'')
      else if length (str_of prompt) > 1000 then
        Inl (new_Error ''Prompt must be less than 1000 characters'')
      else if duration \<noteq> JUndefined \<and>
              (typeof duration \<noteq> ''number'' \<or> num_of duration < 1 \<or> num_of duration > 20) then
        Inl (new_Error ''Duration must be a number between 1 and 20 seconds'')
      else if aspectRatio \<noteq> JUndefined \<and>
              aspectRatio \<notin> set (map JString [''16:9'', ''9:16'', ''1:1'', ''4:3'', ''21:9'']) then
        Inl (new_Error ''Invalid aspect ratio. Must be one of: 16:9, 9:16, 1:1, 4:3, 21:9'')
      else Inr ())"

record video_params =
  in_prompt :: js_value
  in_duration :: js_value
  in_aspectRatio :: js_value

datatype fal_result =
    VideoOk (vr_requestId: string) (videoUrl: js_value) (estimatedTime: js_value)
      (vr_duration: js_value) (vr_aspectRatio: js_value) (vr_prompt: js_value)
      (vr_createdAt: string)
  | VideoFail (vr_requestId: string) (vr_error: string) (vr_errorType: string)
      (vr_details: js_value)

fun success :: "fal_result \<Rightarrow> bool" where
  "success (VideoOk rid u t d a p c) = True"
| "success (VideoFail rid e ty dt) = False"

definition negative_prompt :: string where
  "negative_prompt = ''low quality, worst quality, bad anatomy, bad hands, text, error, missing fingers, extra digit, fewer digits, cropped, worst quality, low quality, normal quality, jpeg artifacts, signature, watermark, username, blurry''"

text \<open>
  The \<open>try\<close> block of \<open>generateVideo\<close>; \<open>Inl\<close> is what it throws. Its last log line
  interpolates \<open>result.videoUrl\<close>.
\<close>

definition generateVideo_try :: "FalClientService \<Rightarrow> fal_transport \<Rightarrow> env \<Rightarrow> string
    \<Rightarrow> js_value \<Rightarrow> js_value \<Rightarrow> js_value \<Rightarrow> net \<Rightarrow> (fal_error option + fal_result) \<times> net" where
  "generateVideo_try svc tr ev rid prompt duration aspectRatio s =
     (case fc_validateInput prompt duration aspectRatio of
        Inl e \<Rightarrow> (Inl (Some e), s)
      | Inr u \<Rightarrow>
          (let payload = \<lparr>pl_prompt = js_trim (str_of prompt),
                          pl_num_frames = \<lfloor>num_of duration * 24\<rfloor>,
                          pl_aspect_ratio = aspectRatio,
                          pl_guidance_scale = 7.5,
                          pl_num_inference_steps = 50,
                          pl_negative_prompt = negative_prompt,
                          pl_seed = random_seed ev\<rparr>
           in case makeRequestWithRetry svc tr ''/fal-ai/pika-1.0'' payload s of
                (Inl thrown, s1) \<Rightarrow> (Inl thrown, s1)
              | (Inr resp, s1) \<Rightarrow>
                  (case data resp of
                     None \<Rightarrow>
                       (Inl (Some (new_TypeError
                          ''Cannot read properties of undefined (reading video_url)'')), s1)
                   | Some d \<Rightarrow>
                       (case interpolate (video_url d) of
                          Inl e \<Rightarrow> (Inl (Some e), s1)
                        | Inr u \<Rightarrow>
                            (Inr (VideoOk rid (video_url d)
                                    (js_or (estimated_time d) (JString ''30-60 seconds''))
                                    duration aspectRatio prompt (now_iso ev)), s1)))))"

text \<open>
  \<open>generateVideo\<close>, called with an object. Two log lines come before the \<open>try\<close>: one
  reads \<open>prompt.substring\<close>, the next interpolates \<open>duration\<close> and \<open>aspectRatio\<close>;
  a TypeError of theirs leaves the function (\<open>Inl\<close>). Everything the \<open>try\<close> block
  throws is handed to \<open>_handleError\<close> and returned.
\<close>

definition generateVideo :: "FalClientService \<Rightarrow> fal_transport \<Rightarrow> env \<Rightarrow> video_params \<Rightarrow> net
    \<Rightarrow> (fal_error + fal_result) \<times> net" where
  "generateVideo svc tr ev params s =
     (let prompt = in_prompt params;
          duration = default_to (JNumber 5) (in_duration params);
          aspectRatio = default_to (JString ''16:9'') (in_aspectRatio params);
          rid = ''req_'' @ fresh_id ev
      in case string_method ''substring'' prompt of
           Inl e \<Rightarrow> (Inl e, s)
         | Inr p \<Rightarrow>
             (case interpolate duration of
                Inl e \<Rightarrow> (Inl e, s)
              | Inr u \<Rightarrow>
                  (case interpolate aspectRatio of
                     Inl e \<Rightarrow> (Inl e, s)
                   | Inr u' \<Rightarrow>
                       (case generateVideo_try svc tr ev rid prompt duration aspectRatio s of
                          (Inr result, s1) \<Rightarrow> (Inr result, s1)
                        | (Inl None, s1) \<Rightarrow>
                            (Inl (new_TypeError
                               ''Cannot read properties of null (reading message)''), s1)
                        | (Inl (Some error), s1) \<Rightarrow>
                            (let errorResponse = fc_handleError svc error
                             in (Inr (VideoFail rid (h_message errorResponse)
                                        (h_type errorResponse) (h_details errorResponse)), s1))))))"

section \<open>Base64\<close>

text \<open>
  Modelled from the spec: the base64 codec behind \<open>Buffer.from(data).toString('base64')\<close>,
  and the decoding of its output, are not code of this repository. The spec asks that
  binary payloads are base64-encoded and that encoding and decoding round-trip exactly; the
  codec is written here as base64 is defined (RFC 4648, section 4): three bytes are one
  24-bit group read as four 6-bit indices into the alphabet, and a last group of one or
  two bytes is padded with \<open>=\<close>.
\<close>

type_synonym byte = "8 word"

definition b64_alphabet :: string where
  "b64_alphabet = ''ABCDEFGHIJKLMNOPQRSTUVWXYZabcdefghijklmnopqrstuvwxyz0123456789+/''"

definition b64_char :: "nat \<Rightarrow> char" where
  "b64_char i = b64_alphabet ! (i mod 64)"

definition b64_index :: "char \<Rightarrow> nat option" where
  "b64_index c = map_of (zip b64_alphabet [0..<64]) c"

fun base64_encode :: "byte list \<Rightarrow> string" where
  "base64_encode (a # b # c # rest) =
     (let n = unat a * 65536 + unat b * 256 + unat c
      in [b64_char (n div 262144), b64_char (n div 4096 mod 64),
          b64_char (n div 64 mod 64), b64_char (n mod 64)] @ base64_encode rest)"
| "base64_encode [a, b] =
     (let n = unat a * 65536 + unat b * 256
      in [b64_char (n div 262144), b64_char (n div 4096 mod 64),
          b64_char (n div 64 mod 64), CHR ''=''])"
| "base64_encode [a] =
     (let n = unat a * 65536
      in [b64_char (n div 262144), b64_char (n div 4096 mod 64), CHR ''='', CHR ''=''])"
| "base64_encode [] = []"

text \<open>Decoding stops at the first group that is not four characters of the encoding.\<close>

fun base64_decode :: "string \<Rightarrow> byte list" where
  "base64_decode (c1 # c2 # c3 # c4 # rest) =
     (case (b64_index c1, b64_index c2) of
        (Some i1, Some i2) \<Rightarrow>
          if c3 = CHR ''='' then [of_nat ((i1 * 64 + i2) div 16)]
          else
            (case b64_index c3 of
               None \<Rightarrow> []
             | Some i3 \<Rightarrow>
                 if c4 = CHR ''='' then
                   (let m = i1 * 4096 + i2 * 64 + i3
                    in [of_nat (m div 1024), of_nat (m div 4 mod 256)])
                 else
                   (case b64_index c4 of
                      None \<Rightarrow> []
                    | Some i4 \<Rightarrow>
                        (let n = i1 * 262144 + i2 * 4096 + i3 * 64 + i4
                         in [of_nat (n div 65536), of_nat (n div 256 mod 256), of_nat (n mod 256)]
                            @ base64_decode rest)))
      | _ \<Rightarrow> [])"
| "base64_decode cs = []"

section \<open>ElevenLabsService\<close>

record ElevenLabsService =
  el_baseURL :: string
  el_apiKey :: "string option"
  el_timeout :: nat
  disabled :: bool

text \<open>The constructor with \<open>_validateApiKey\<close>: it never throws, it sets \<open>disabled\<close>.\<close>

definition ElevenLabsService_new :: "string option \<Rightarrow> ElevenLabsService" where
  "ElevenLabsService_new ELEVENLABS_API_KEY =
     \<lparr>el_baseURL = ''https://api.elevenlabs.io/v1'', el_apiKey = ELEVENLABS_API_KEY,
      el_timeout = 60000,
      disabled = (case ELEVENLABS_API_KEY of
                    None \<Rightarrow> True
                  | Some k \<Rightarrow> if k = [] then True else if length k < 10 then True else False)\<rparr>"

record voice_settings =
  vs_stability :: js_value
  vs_similarity_boost :: js_value
  vs_style :: real
  vs_use_speaker_boost :: bool

record el_payload =
  el_text :: string
  el_voice_id :: string
  el_model_id :: string
  el_voice_settings :: voice_settings

type_synonym el_error = "byte list js_error"
type_synonym el_response = "byte list axios_response"
type_synonym el_transport = "(el_payload, byte list) transport"

definition default_voice :: string where
  "default_voice = ''21m00Tcm4TlvDq8ikWAM''"

definition el_validateInput :: "js_value \<Rightarrow> js_value \<Rightarrow> el_error + unit" where
  "el_validateInput text_in voiceId =
     (if \<not> truthy text_in \<or> typeof text_in \<noteq> ''string'' then
        Inl (new_Error ''Text is required and must be a string'')
      else if length (js_trim (str_of text_in)) = 0 then
        Inl (new_Error ''Text cannot be empty'')
      else if length (str_of text_in) > 5000 then
        Inl (new_Error ''Text must be less than 5000 characters'')
      else if \<not> truthy voiceId \<or> typeof voiceId \<noteq> ''string'' then
        Inl (new_Error ''Voice ID is required and must be a string'')
      else if length (str_of voiceId) < 10 then
        Inl (new_Error ''Invalid voice ID format'')
      else Inr ())"

text \<open>\<open>Math.ceil(text.length / 5 / 150 * 60)\<close>, in exact arithmetic.\<close>

definition estimateAudioDuration :: "string \<Rightarrow> int" where
  "estimateAudioDuration t = \<lceil>real (length t) / 5 / 150 * 60\<rceil>"

datatype el_details = NoDetails | DataDetails "byte list" | MessageDetails string

datatype el_result =
    SpeechOk (sp_requestId: string) (audioBase64: string) (audioFormat: string)
      (audioSize: nat) (sp_duration: int) (sp_text: js_value) (sp_voiceId: js_value)
      (sp_createdAt: string)
  | SpeechFail (sp_error: string) (sp_errorType: string) (sp_details: el_details)
      (sp_requestId: string)

fun sp_success :: "el_result \<Rightarrow> bool" where
  "sp_success (SpeechOk rid b f n d t v c) = True"
| "sp_success (SpeechFail e ty dt rid) = False"

definition el_request :: "ElevenLabsService \<Rightarrow> string \<Rightarrow> el_payload \<Rightarrow> el_payload axios_config" where
  "el_request svc validVoiceId payload =
     \<lparr>cfg_method = ''POST'', cfg_url = el_baseURL svc @ ''/text-to-speech/'' @ validVoiceId,
      cfg_timeout = el_timeout svc,
      cfg_headers = [(''xi-api-key'', el_apiKey svc),
                     (''Content-Type'', Some ''application/json''),
                     (''User-Agent'', Some ''FayStar-Backend/1.0''),
                     (''Accept'', Some ''audio/mpeg'')],
      cfg_data = Some payload\<rparr>"

text \<open>The \<open>try\<close> block of \<open>generateSpeech\<close>; \<open>Inl\<close> is what it throws.\<close>

definition generateSpeech_try :: "ElevenLabsService \<Rightarrow> el_transport \<Rightarrow> env \<Rightarrow> string
    \<Rightarrow> js_value \<Rightarrow> js_value \<Rightarrow> js_value \<Rightarrow> js_value \<Rightarrow> net \<Rightarrow> (el_error + el_result) \<times> net" where
  "generateSpeech_try svc tr ev rid text_in voiceId stability similarity s =
     (case el_validateInput text_in voiceId of
        Inl e \<Rightarrow> (Inl e, s)
      | Inr u \<Rightarrow>
          if \<not> truthy voiceId \<or> typeof voiceId \<noteq> ''string'' then
            (Inr (SpeechFail ''Invalid voice ID provided'' ''INVALID_VOICE_ID'' NoDetails rid), s)
          else
            (let validVoiceId = (if js_trim (str_of voiceId) \<noteq> [] then js_trim (str_of voiceId)
                                 else default_voice);
                 payload = \<lparr>el_text = js_trim (str_of text_in), el_voice_id = validVoiceId,
                             el_model_id = ''eleven_multilingual_v2'',
                             el_voice_settings = \<lparr>vs_stability = stability,
                               vs_similarity_boost = similarity, vs_style = 0,
                               vs_use_speaker_boost = True\<rparr>\<rparr>
             in case axios tr (el_request svc validVoiceId payload) s of
                  (Inl e, s1) \<Rightarrow> (Inl e, s1)
                | (Inr resp, s1) \<Rightarrow>
                    (let audioBuffer = data resp;
                         audioBase64 = base64_encode audioBuffer
                     in (Inr (SpeechOk rid audioBase64 ''audio/mpeg'' (length audioBuffer)
                                (estimateAudioDuration (str_of text_in)) text_in voiceId
                                (now_iso ev)), s1))))"

text \<open>The \<open>catch\<close> block of \<open>generateSpeech\<close>.\<close>

definition generateSpeech_catch :: "el_error \<Rightarrow> string \<Rightarrow> el_result" where
  "generateSpeech_catch e rid =
     (case response e of
        Some r \<Rightarrow>
          (let st = status r; errorData = data r
           in if st = 401 then
                SpeechFail ''Invalid ElevenLabs API key'' ''INVALID_API_KEY'' (DataDetails errorData) rid
              else if st = 404 then
                SpeechFail ''Invalid voice ID or ElevenLabs API endpoint'' ''INVALID_VOICE_OR_URL''
                  (DataDetails errorData) rid
              else if st = 429 then
                SpeechFail ''Rate limit exceeded - too many requests to ElevenLabs'' ''RATE_LIMITED''
                  (DataDetails errorData) rid
              else if st = 400 then
                SpeechFail ''Bad request - invalid parameters'' ''BAD_REQUEST''
                  (DataDetails errorData) rid
              else if st = 402 then
                SpeechFail ''Payment required - insufficient ElevenLabs credits'' ''PAYMENT_REQUIRED''
                  (DataDetails errorData) rid
              else if st = 500 \<or> st = 502 \<or> st = 503 \<or> st = 504 then
                SpeechFail (''ElevenLabs server error ('' @ show_nat st @ '')'') ''SERVER_ERROR''
                  (DataDetails errorData) rid
              else
                SpeechFail (''ElevenLabs API error ('' @ show_nat st @ '')'') ''API_ERROR''
                  (DataDetails errorData) rid)
      | None \<Rightarrow>
          if code e = Some ''ECONNABORTED'' then
            SpeechFail ''Request timeout - ElevenLabs API not responding'' ''TIMEOUT'' NoDetails rid
          else if code e = Some ''ENOTFOUND'' \<or> code e = Some ''ECONNREFUSED'' then
            SpeechFail ''Network error - unable to connect to ElevenLabs'' ''NETWORK_ERROR''
              NoDetails rid
          else
            SpeechFail ''Unexpected error during speech synthesis'' ''UNKNOWN_ERROR''
              (MessageDetails (message e)) rid)"

text \<open>
  \<open>generateSpeech\<close>: one log line reads \<open>text.substring\<close>, the next interpolates
  \<open>voiceId\<close>; a TypeError of theirs leaves the function (\<open>Inl\<close>). Then comes the
  \<open>disabled\<close> check, then the \<open>try\<close> with its \<open>catch\<close>.
\<close>

definition generateSpeech :: "ElevenLabsService \<Rightarrow> el_transport \<Rightarrow> env
    \<Rightarrow> js_value \<Rightarrow> js_value \<Rightarrow> js_value \<Rightarrow> js_value \<Rightarrow> net \<Rightarrow> (el_error + el_result) \<times> net" where
  "generateSpeech svc tr ev text_arg voiceId_arg stability_arg similarity_arg s =
     (let text_in = text_arg;
          voiceId = default_to (JString default_voice) voiceId_arg;
          stability = default_to (JNumber 0.5) stability_arg;
          similarity = default_to (JNumber 0.8) similarity_arg;
          rid = ''tts_'' @ fresh_id ev
      in case string_method ''substring'' text_in of
           Inl e \<Rightarrow> (Inl e, s)
         | Inr t \<Rightarrow>
             (case interpolate voiceId of
                Inl e \<Rightarrow> (Inl e, s)
              | Inr u \<Rightarrow>
                  if disabled svc then
                    (Inr (SpeechFail ''ElevenLabs service is disabled - API key not configured''
                            ''SERVICE_DISABLED'' NoDetails rid), s)
                  else
                    (case generateSpeech_try svc tr ev rid text_in voiceId stability similarity s of
                       (Inr result, s1) \<Rightarrow> (Inr result, s1)
                     | (Inl e, s1) \<Rightarrow> (Inr (generateSpeech_catch e rid), s1))))"

datatype health = Health (hl_status: string) (elevenLabsReachable: bool)
  (responseTime: "string option") (hl_error: "string option")

text \<open>\<open>checkHealth\<close> probes \<open>/voices\<close>; it does not look at \<open>disabled\<close>.\<close>

definition el_checkHealth :: "ElevenLabsService \<Rightarrow> el_transport \<Rightarrow> net \<Rightarrow> health \<times> net" where
  "el_checkHealth svc tr s =
     (case axios tr \<lparr>cfg_method = ''GET'', cfg_url = el_baseURL svc @ ''/voices'',
                      cfg_timeout = 5000,
                      cfg_headers = [(''xi-api-key'', el_apiKey svc),
                                     (''User-Agent'', Some ''FayStar-HealthCheck/1.0'')],
                      cfg_data = None\<rparr> s of
        (Inr resp, s1) \<Rightarrow>
          (Health ''healthy'' True
             (Some (case map_of (headers resp) ''x-response-time'' of
                      None \<Rightarrow> ''unknown''
                    | Some v \<Rightarrow> if v = [] then ''unknown'' else v)) None, s1)
      | (Inl e, s1) \<Rightarrow> (Health ''unhealthy'' False None (Some (message e)), s1))"

record el_config =
  c_baseURL :: string
  c_timeout :: nat
  c_hasApiKey :: bool
  c_apiKeyLength :: nat

definition el_getConfig :: "ElevenLabsService \<Rightarrow> el_config" where
  "el_getConfig svc =
     \<lparr>c_baseURL = el_baseURL svc, c_timeout = el_timeout svc,
      c_hasApiKey = (case el_apiKey svc of None \<Rightarrow> False | Some k \<Rightarrow> k \<noteq> []),
      c_apiKeyLength = (case el_apiKey svc of None \<Rightarrow> 0 | Some k \<Rightarrow> length k)\<rparr>"

section \<open>FalVideoService\<close>





definition key_set :: "string option \<Rightarrow> bool" where
  "key_set k = (case k of None \<Rightarrow> False | Some v \<Rightarrow> v \<noteq> [])"







section \<open>The routes\<close>

text \<open>
  The handlers of \<open>POST /api/audio/tts\<close> and \<open>POST /api/video/generate\<close>, entered after
  express-validator and \<open>verifyToken\<close> have run: \<open>errors\<close> is what \<open>validationResult\<close>
  holds (field and message), \<open>userId\<close> is \<open>req.user.userId\<close>. Their log lines before
  the \<open>try\<close> interpolate \<open>userId\<close> and read \<open>req.body.text?.substring\<close>
  (\<open>req.body.prompt?.substring\<close>); a TypeError of theirs leaves the handler (\<open>Inl\<close>).
  A reply is the status and the fields of the JSON body that the handler sets;
  \<open>rp_result\<close> is the service's result, from which the success reply copies its fields.
\<close>

datatype 'dt reply_details =
  NoReplyDetails | ValidationDetails "(string \<times> string) list" | ServiceDetails 'dt
  | TextDetails string

record ('r, 'dt) reply =
  http_status :: nat
  rp_success :: bool
  rp_error :: "string option"
  rp_errorType :: "string option"
  rp_message :: "string option"
  rp_details :: "'dt reply_details"
  rp_result :: "'r option"
  rp_requestId :: string

text \<open>\<open>v?.m(...)\<close>: \<open>undefined\<close> and \<open>null\<close> short-circuit.\<close>

fun optional_string_method :: "string \<Rightarrow> js_value \<Rightarrow> 'd js_error + unit" where
  "optional_string_method m (JString s) = Inr ()"
| "optional_string_method m JUndefined = Inr ()"
| "optional_string_method m JNull = Inr ()"
| "optional_string_method m v = Inl (new_TypeError (m @ '' is not a function''))"

text \<open>
  The normalisation of \<open>stability\<close> and of \<open>similarity\<close>, which the handler writes out
  twice with the defaults 0.5 and 0.8.
\<close>

definition normalize_tuning :: "real \<Rightarrow> js_value \<Rightarrow> real" where
  "normalize_tuning dflt v =
     (if v \<noteq> JUndefined then
        (if typeof v = ''number'' then
           (if num_of v > 1 then min (max (num_of v / 100) 0) 1
            else min (max (num_of v) 0) 1)
         else dflt)
      else dflt)"

definition audio_getStatusCodeForError :: "string \<Rightarrow> nat" where
  "audio_getStatusCodeForError errorType =
     (if errorType = ''INVALID_API_KEY'' \<or> errorType = ''MISSING_API_KEY'' then 500
      else if errorType = ''PAYMENT_REQUIRED'' then 402
      else if errorType = ''RATE_LIMITED'' then 429
      else if errorType = ''ACCESS_DENIED'' then 403
      else if errorType = ''TIMEOUT'' \<or> errorType = ''NETWORK_ERROR'' \<or> errorType = ''SERVER_ERROR''
        then 503
      else if errorType = ''BAD_REQUEST'' \<or> errorType = ''VALIDATION_ERROR'' then 400
      else 500)"

definition audio_getUserFriendlyMessage :: "string \<Rightarrow> string" where
  "audio_getUserFriendlyMessage errorType =
     (if errorType = ''INVALID_API_KEY'' then
        ''The ElevenLabs API key is invalid. Please contact support.''
      else if errorType = ''MISSING_API_KEY'' then
        ''ElevenLabs API key is not configured. Please contact support.''
      else if errorType = ''PAYMENT_REQUIRED'' then
        ''Your ElevenLabs account has insufficient credits. Please check your billing.''
      else if errorType = ''RATE_LIMITED'' then
        ''Too many speech synthesis requests. Please wait and try again later.''
      else if errorType = ''ACCESS_DENIED'' then
        ''Access to ElevenLabs service is denied. Please contact support.''
      else if errorType = ''TIMEOUT'' then
        ''Speech synthesis is taking too long. Please try again.''
      else if errorType = ''NETWORK_ERROR'' then
        ''Network connection to ElevenLabs failed. Please check your internet connection.''
      else if errorType = ''SERVER_ERROR'' then
        ''ElevenLabs service is temporarily unavailable. Please try again later.''
      else if errorType = ''BAD_REQUEST'' \<or> errorType = ''VALIDATION_ERROR'' then
        ''Invalid request parameters. Please check your input.''
      else ''An error occurred while generating speech. Please try again.'')"

record tts_body =
  b_text :: js_value
  b_voiceId :: js_value
  b_stability :: js_value
  b_similarity :: js_value

definition tts_route :: "ElevenLabsService option \<Rightarrow> string option \<Rightarrow> string option
    \<Rightarrow> (string \<times> string) list \<Rightarrow> js_value \<Rightarrow> el_transport \<Rightarrow> env \<Rightarrow> env \<Rightarrow> tts_body
    \<Rightarrow> net \<Rightarrow> (el_error + (el_result, el_details) reply) \<times> net" where
  "tts_route elevenLabsService ELEVENLABS_API_KEY NODE_ENV errors userId tr renv ev body s =
     (let requestId = ''api_'' @ fresh_id renv
      in case interpolate userId of
           Inl e \<Rightarrow> (Inl e, s)
         | Inr u0 \<Rightarrow>
        case optional_string_method ''substring'' (b_text body) of
           Inl e \<Rightarrow> (Inl e, s)
         | Inr u \<Rightarrow>
             if errors \<noteq> [] then
               (Inr \<lparr>http_status = 400, rp_success = False, rp_error = Some ''Validation failed'',
                     rp_errorType = Some ''VALIDATION_ERROR'', rp_message = None,
                     rp_details = ValidationDetails errors, rp_result = None,
                     rp_requestId = requestId\<rparr>, s)
             else
               (case elevenLabsService of
                  None \<Rightarrow>
                    (Inr \<lparr>http_status = 503, rp_success = False,
                          rp_error = Some ''ElevenLabs service not available'',
                          rp_errorType = Some ''SERVICE_UNAVAILABLE'',
                          rp_message = Some ''Text-to-speech service is not properly configured'',
                          rp_details = NoReplyDetails, rp_result = None,
                          rp_requestId = requestId\<rparr>, s)
                | Some svc \<Rightarrow>
                    (let text_in = b_text body;
                         voiceId = default_to (JString default_voice) (b_voiceId body);
                         normalizedStability = normalize_tuning 0.5 (b_stability body);
                         normalizedSimilarity = normalize_tuning 0.8 (b_similarity body)
                     in if \<not> key_set ELEVENLABS_API_KEY then
                          (Inr \<lparr>http_status = 500, rp_success = False,
                                rp_error = Some ''ELEVENLABS_API_KEY not configured'',
                                rp_errorType = Some ''MISSING_API_KEY'',
                                rp_message = Some ''ElevenLabs API key is not configured on the server'',
                                rp_details = NoReplyDetails, rp_result = None,
                                rp_requestId = requestId\<rparr>, s)
                        else
                          (case generateSpeech svc tr ev text_in voiceId
                                  (JNumber normalizedStability) (JNumber normalizedSimilarity) s of
                             (Inl e, s1) \<Rightarrow>
                               (Inr \<lparr>http_status = 500, rp_success = False,
                                     rp_error = Some ''Internal server error'',
                                     rp_errorType = Some ''SYSTEM_ERROR'',
                                     rp_message = Some ''An unexpected error occurred while processing your request'',
                                     rp_details = (if NODE_ENV = Some ''development''
                                                   then TextDetails (message e) else NoReplyDetails),
                                     rp_result = None, rp_requestId = requestId\<rparr>, s1)
                           | (Inr result, s1) \<Rightarrow>
                               if sp_success result then
                                 (Inr \<lparr>http_status = 200, rp_success = True, rp_error = None,
                                       rp_errorType = None,
                                       rp_message = Some ''Audio generated successfully'',
                                       rp_details = NoReplyDetails, rp_result = Some result,
                                       rp_requestId = requestId\<rparr>, s1)
                               else
                                 (Inr \<lparr>http_status = audio_getStatusCodeForError (sp_errorType result),
                                       rp_success = False, rp_error = Some (sp_error result),
                                       rp_errorType = Some (sp_errorType result),
                                       rp_message = Some (audio_getUserFriendlyMessage (sp_errorType result)),
                                       rp_details = ServiceDetails (sp_details result),
                                       rp_result = None, rp_requestId = requestId\<rparr>, s1)))))"

definition video_getStatusCodeForError :: "string \<Rightarrow> nat" where
  "video_getStatusCodeForError errorType =
     (if errorType = ''INVALID_API_KEY'' \<or> errorType = ''MISSING_API_KEY'' then 500
      else if errorType = ''NO_CREDITS'' then 402
      else if errorType = ''RATE_LIMITED'' then 429
      else if errorType = ''ACCESS_DENIED'' then 403
      else if errorType = ''TIMEOUT'' \<or> errorType = ''NETWORK_ERROR'' \<or> errorType = ''SERVER_ERROR''
        then 503
      else if errorType = ''VALIDATION_ERROR'' then 400
      else 500)"

definition video_getUserFriendlyMessage :: "string \<Rightarrow> string" where
  "video_getUserFriendlyMessage errorType =
     (if errorType = ''INVALID_API_KEY'' then
        ''The Fal.ai API key is invalid. Please contact support.''
      else if errorType = ''MISSING_API_KEY'' then
        ''Fal.ai API key is not configured. Please contact support.''
      else if errorType = ''NO_CREDITS'' then
        ''Your Fal.ai account has insufficient credits. Please check your billing.''
      else if errorType = ''RATE_LIMITED'' then
        ''Too many video generation requests. Please wait and try again later.''
      else if errorType = ''ACCESS_DENIED'' then
        ''Access to Fal.ai service is denied. Please contact support.''
      else if errorType = ''TIMEOUT'' then
        ''Video generation is taking too long. Please try again.''
      else if errorType = ''NETWORK_ERROR'' then
        ''Network connection to Fal.ai failed. Please check your internet connection.''
      else if errorType = ''SERVER_ERROR'' then
        ''Fal.ai service is temporarily unavailable. Please try again later.''
      else if errorType = ''VALIDATION_ERROR'' then
        ''Invalid request parameters. Please check your input.''
      else ''An error occurred while generating your video. Please try again.'')"

definition video_route :: "FalClientService option \<Rightarrow> string option \<Rightarrow> string option
    \<Rightarrow> (string \<times> string) list \<Rightarrow> js_value \<Rightarrow> fal_transport \<Rightarrow> env \<Rightarrow> env
    \<Rightarrow> video_params \<Rightarrow> net \<Rightarrow> (fal_error + (fal_result, js_value) reply) \<times> net" where
  "video_route falClient FAL_KEY NODE_ENV errors userId tr renv ev body s =
     (let requestId = ''api_'' @ fresh_id renv
      in case interpolate userId of
           Inl e \<Rightarrow> (Inl e, s)
         | Inr u0 \<Rightarrow>
        case optional_string_method ''substring'' (in_prompt body) of
           Inl e \<Rightarrow> (Inl e, s)
         | Inr u \<Rightarrow>
             if errors \<noteq> [] then
               (Inr \<lparr>http_status = 400, rp_success = False, rp_error = Some ''Validation failed'',
                     rp_errorType = Some ''VALIDATION_ERROR'', rp_message = None,
                     rp_details = ValidationDetails errors, rp_result = None,
                     rp_requestId = requestId\<rparr>, s)
             else
               (case falClient of
                  None \<Rightarrow>
                    (Inr \<lparr>http_status = 503, rp_success = False,
                          rp_error = Some ''Fal.ai service not available'',
                          rp_errorType = Some ''SERVICE_UNAVAILABLE'',
                          rp_message = Some ''Video generation service is not properly configured'',
                          rp_details = NoReplyDetails, rp_result = None,
                          rp_requestId = requestId\<rparr>, s)
                | Some svc \<Rightarrow>
                    (let prompt = in_prompt body;
                         duration = default_to (JNumber 5) (in_duration body);
                         aspectRatio = default_to (JString ''16:9'') (in_aspectRatio body)
                     in if \<not> key_set FAL_KEY then
                          (Inr \<lparr>http_status = 500, rp_success = False,
                                rp_error = Some ''FAL_KEY not configured'',
                                rp_errorType = Some ''MISSING_API_KEY'',
                                rp_message = Some ''Fal.ai API key is not configured on the server'',
                                rp_details = NoReplyDetails, rp_result = None,
                                rp_requestId = requestId\<rparr>, s)
                        else
                          (case generateVideo svc tr ev
                                  \<lparr>in_prompt = prompt, in_duration = duration,
                                   in_aspectRatio = aspectRatio\<rparr> s of
                             (Inl e, s1) \<Rightarrow>
                               (Inr \<lparr>http_status = 500, rp_success = False,
                                     rp_error = Some ''Internal server error'',
                                     rp_errorType = Some ''SYSTEM_ERROR'',
                                     rp_message = Some ''An unexpected error occurred while processing your request'',
                                     rp_details = (if NODE_ENV = Some ''development''
                                                   then TextDetails (message e) else NoReplyDetails),
                                     rp_result = None, rp_requestId = requestId\<rparr>, s1)
                           | (Inr result, s1) \<Rightarrow>
                               if success result then
                                 (Inr \<lparr>http_status = 200, rp_success = True, rp_error = None,
                                       rp_errorType = None,
                                       rp_message = Some ''Video generation completed successfully'',
                                       rp_details = NoReplyDetails, rp_result = Some result,
                                       rp_requestId = requestId\<rparr>, s1)
                               else
                                 (Inr \<lparr>http_status = video_getStatusCodeForError (vr_errorType result),
                                       rp_success = False, rp_error = Some (vr_error result),
                                       rp_errorType = Some (vr_errorType result),
                                       rp_message = Some (video_getUserFriendlyMessage (vr_errorType result)),
                                       rp_details = ServiceDetails (vr_details result),
                                       rp_result = None, rp_requestId = requestId\<rparr>, s1)))))"

text \<open>
  The handler of \<open>POST /api/test/tts\<close> (no validator, no token). All of it after the first
  log line is inside a \<open>try\<close>, so it always replies; a failed result of \<open>generateSpeech\<close>
  goes out with status 500 whatever its error type.
\<close>

definition test_tts_route :: "ElevenLabsService option \<Rightarrow> el_transport \<Rightarrow> env \<Rightarrow> env
    \<Rightarrow> tts_body \<Rightarrow> net \<Rightarrow> (el_result, el_details) reply \<times> net" where
  "test_tts_route elevenLabsService tr renv ev body s =
     (let requestId = ''test_'' @ fresh_id renv;
          text_in = b_text body;
          voiceId = default_to (JString default_voice) (b_voiceId body)
      in if \<not> truthy text_in \<or> typeof text_in \<noteq> ''string'' then
           (\<lparr>http_status = 400, rp_success = False,
             rp_error = Some ''Text is required and must be a string'', rp_errorType = None,
             rp_message = None, rp_details = NoReplyDetails, rp_result = None,
             rp_requestId = requestId\<rparr>, s)
         else if length (str_of text_in) > 5000 then
           (\<lparr>http_status = 400, rp_success = False,
             rp_error = Some ''Text must be less than 5000 characters'', rp_errorType = None,
             rp_message = None, rp_details = NoReplyDetails, rp_result = None,
             rp_requestId = requestId\<rparr>, s)
         else
           (case elevenLabsService of
              None \<Rightarrow>
                (\<lparr>http_status = 503, rp_success = False,
                  rp_error = Some ''ElevenLabs service not available'', rp_errorType = None,
                  rp_message = None, rp_details = NoReplyDetails, rp_result = None,
                  rp_requestId = requestId\<rparr>, s)
            | Some svc \<Rightarrow>
                (case generateSpeech svc tr ev text_in voiceId JUndefined JUndefined s of
                   (Inl e, s1) \<Rightarrow>
                     (\<lparr>http_status = 500, rp_success = False,
                       rp_error = Some ''Internal server error'',
                       rp_errorType = Some ''SYSTEM_ERROR'',
                       rp_message = Some ''An unexpected error occurred while processing your request'',
                       rp_details = NoReplyDetails, rp_result = None,
                       rp_requestId = requestId\<rparr>, s1)
                 | (Inr result, s1) \<Rightarrow>
                     if sp_success result then
                       (\<lparr>http_status = 200, rp_success = True, rp_error = None,
                         rp_errorType = None, rp_message = Some ''Audio generated successfully'',
                         rp_details = NoReplyDetails, rp_result = Some result,
                         rp_requestId = requestId\<rparr>, s1)
                     else
                       (\<lparr>http_status = 500, rp_success = False,
                         rp_error = Some (sp_error result),
                         rp_errorType = Some (sp_errorType result), rp_message = None,
                         rp_details = ServiceDetails (sp_details result), rp_result = None,
                         rp_requestId = requestId\<rparr>, s1))))"

section \<open>Simulated transports\<close>

text \<open>The rejection axios produces for an answer with a status outside 2xx.\<close>

definition status_error :: "nat \<Rightarrow> 'd \<Rightarrow> 'd js_error" where
  "status_error st d =
     \<lparr>name = ''AxiosError'', message = ''Request failed with status code '' @ show_nat st,
      code = Some (if st < 500 then ''ERR_BAD_REQUEST'' else ''ERR_BAD_RESPONSE''),
      response = Some \<lparr>status = st, data = d, headers = []\<rparr>\<rparr>"

definition always_status :: "nat \<Rightarrow> 'd \<Rightarrow> ('p, 'd) transport" where
  "always_status st d = (\<lambda>n cfg. Inl (status_error st d))"

definition net0 :: net where
  "net0 = \<lparr>calls = 0, slept = 0\<rparr>"

definition env0 :: env where
  "env0 = \<lparr>fresh_id = ''1700000000000_abc123xyz'', random_seed = 42,
           now_iso = ''2024-02-27T21:00:00.000Z''\<rparr>"

definition fal_svc :: FalClientService where
  "fal_svc = \<lparr>fc_baseURL = ''https://fal.run'', fc_apiKey = ''fal-key-0123456789'',
              fc_timeout = 60000, fc_maxRetries = 1\<rparr>"

definition payload0 :: fal_payload where
  "payload0 = \<lparr>pl_prompt = ''A beautiful sunset'', pl_num_frames = 120,
               pl_aspect_ratio = JString ''16:9'', pl_guidance_scale = 7.5,
               pl_num_inference_steps = 50, pl_negative_prompt = negative_prompt,
               pl_seed = 42\<rparr>"

definition el_svc :: ElevenLabsService where
  "el_svc = ElevenLabsService_new (Some ''sk_0123456789abcdef'')"

definition el_svc_off :: ElevenLabsService where
  "el_svc_off = ElevenLabsService_new None"

text \<open>A transport that answers every call with status 200 and the given body.\<close>

definition always_ok :: "'d \<Rightarrow> ('p, 'd) transport" where
  "always_ok d = (\<lambda>n cfg. Inr \<lparr>status = 200, data = d, headers = []\<rparr>)"

definition hello_bytes :: "byte list" where
  "hello_bytes = [0x48, 0x65, 0x6C, 0x6C, 0x6F]"

definition tts_body0 :: tts_body where
  "tts_body0 = \<lparr>b_text = JString ''Hello world'', b_voiceId = JUndefined,
                 b_stability = JNumber 75, b_similarity = JUndefined\<rparr>"

definition video_body0 :: video_params where
  "video_body0 = \<lparr>in_prompt = JString ''A beautiful sunset'', in_duration = JUndefined,
                   in_aspectRatio = JUndefined\<rparr>"

text \<open>A transport that rejects the first call with one status and every later call with another.\<close>

definition then_status :: "nat \<Rightarrow> nat \<Rightarrow> 'd \<Rightarrow> ('p, 'd) transport" where
  "then_status st1 st2 d = (\<lambda>n cfg. Inl (status_error (if n = 0 then st1 else st2) d))"

section \<open>The retry loop\<close>

declare retry_loop.simps [simp del]

lemma FalClientService_new_maxRetries:
  "FalClientService_new key = Inr svc \<Longrightarrow> fc_maxRetries svc = 1"
  by (auto simp: FalClientService_new_def split: option.splits if_splits)

lemma retry_loop_success:
  assumes "attempt \<le> fc_maxRetries svc + 1"
    and "tr (calls s) (fc_request svc ep d) = Inr resp"
  shows "retry_loop svc tr ep d attempt le s = (Inr resp, s\<lparr>calls := Suc (calls s)\<rparr>)"
  using assms by (subst retry_loop.simps) (simp add: axios_def)

lemma retry_loop_no_retry:
  assumes "attempt \<le> fc_maxRetries svc + 1"
    and "tr (calls s) (fc_request svc ep d) = Inl e" and "no_retry e"
  shows "retry_loop svc tr ep d attempt le s = (Inl (Some e), s\<lparr>calls := Suc (calls s)\<rparr>)"
  using assms by (subst retry_loop.simps) (simp add: axios_def)

lemma retry_loop_again:
  assumes "attempt \<le> fc_maxRetries svc + 1"
    and "tr (calls s) (fc_request svc ep d) = Inl e" and "\<not> no_retry e"
  shows "retry_loop svc tr ep d attempt le s =
         retry_loop svc tr ep d (attempt + 1) (Some e)
           (if attempt \<le> fc_maxRetries svc then sleep 2000 (s\<lparr>calls := Suc (calls s)\<rparr>)
            else s\<lparr>calls := Suc (calls s)\<rparr>)"
  using assms by (subst retry_loop.simps) (simp add: axios_def)

lemma retry_loop_exhausted:
  assumes "\<not> attempt \<le> fc_maxRetries svc + 1"
  shows "retry_loop svc tr ep d attempt le s = (Inl le, s)"
  using assms by (subst retry_loop.simps) simp

lemma fal_svc_new: "FalClientService_new (Some ''fal-key-0123456789'') = Inr fal_svc"
  by (simp add: FalClientService_new_def fal_svc_def)

text \<open>
  C1 (the code departs from it). The claim: after a first failure with any 4xx status,
  \<open>_makeRequestWithRetry\<close> makes no second transport attempt. The loop rethrows at once
  only on 401, 403, 402 and 429; a transport that answers 400 is called a second time
  after the two-second pause, although the comments in the loop say that client errors
  are not retried and that only network and server errors are.
\<close>

theorem C1_retries_on_400:
  "makeRequestWithRetry fal_svc (always_status 400 None) ''/fal-ai/pika-1.0'' payload0 net0
     = (Inl (Some (status_error 400 None)), \<lparr>calls = 2, slept = 2000\<rparr>)"
  by (simp add: makeRequestWithRetry_def retry_loop.simps axios_def always_status_def
      no_retry_def status_error_def fal_svc_def net0_def sleep_def)

theorem C1_retries_on_400_witness:
  "calls (snd (makeRequestWithRetry fal_svc (always_status 400 None) ''/fal-ai/pika-1.0''
     payload0 net0)) = 2"
  using C1_retries_on_400 by simp

text \<open>
  C2. A client built by the constructor, on a transport that rejects every attempt with
  status 500: \<open>_makeRequestWithRetry\<close> calls the transport at most twice (it calls it
  twice), and \<open>_handleError\<close> classifies what it throws as SERVER_ERROR.
\<close>

theorem C2_retry_bound_500:
  assumes new: "FalClientService_new key = Inr svc"
    and tr: "\<forall>n cfg. \<exists>e r. tr n cfg = Inl e \<and> response e = Some r \<and> status r = 500"
  shows "calls (snd (makeRequestWithRetry svc tr ep d s)) \<le> calls s + 2
       \<and> calls (snd (makeRequestWithRetry svc tr ep d s)) = calls s + 2
       \<and> (\<exists>e. fst (makeRequestWithRetry svc tr ep d s) = Inl (Some e)
              \<and> h_type (fc_handleError svc e) = ''SERVER_ERROR'')"
proof -
  have m: "fc_maxRetries svc = 1" using new by (rule FalClientService_new_maxRetries)
  obtain e1 r1 where 1: "tr (calls s) (fc_request svc ep d) = Inl e1"
    "response e1 = Some r1" "status r1 = 500" using tr by blast
  obtain e2 r2 where 2: "tr (Suc (calls s)) (fc_request svc ep d) = Inl e2"
    "response e2 = Some r2" "status r2 = 500" using tr by blast
  have n1: "\<not> no_retry e1" and n2: "\<not> no_retry e2" using 1 2 by (simp_all add: no_retry_def)
  have "makeRequestWithRetry svc tr ep d s =
        (Inl (Some e2), \<lparr>calls = Suc (Suc (calls s)), slept = slept s + 2000\<rparr>)"
    unfolding makeRequestWithRetry_def
    apply (subst retry_loop.simps)
    apply (simp add: m axios_def 1 n1)
    apply (subst retry_loop.simps)
    apply (simp add: m axios_def sleep_def 2 n2)
    apply (subst retry_loop.simps)
    apply (simp add: m)
    done
  then show ?thesis using 2 by (simp add: fc_handleError_def)
qed

theorem C2_retry_bound_500_witness:
  "calls (snd (makeRequestWithRetry fal_svc (always_status 500 None) ''/fal-ai/pika-1.0''
     payload0 net0)) \<le> 2
   \<and> (\<exists>e. fst (makeRequestWithRetry fal_svc (always_status 500 None) ''/fal-ai/pika-1.0''
          payload0 net0) = Inl (Some e)
        \<and> h_type (fc_handleError fal_svc e) = ''SERVER_ERROR'')"
proof -
  have "\<forall>n cfg. \<exists>e r. (always_status 500 None :: fal_transport) n cfg = Inl e
          \<and> response e = Some r \<and> status r = 500"
    by (simp add: always_status_def status_error_def)
  from C2_retry_bound_500 [OF fal_svc_new this, of "''/fal-ai/pika-1.0''" payload0 net0]
  show ?thesis by (simp add: net0_def)
qed

text \<open>
  C3. A client built by the constructor, on a transport whose answer to the first attempt
  is a rejection with status 401: \<open>_makeRequestWithRetry\<close> rethrows that error after
  exactly one transport call, with no pause and no second attempt.
\<close>

theorem C3_no_retry_401:
  assumes new: "FalClientService_new key = Inr svc"
    and tr: "tr (calls s) (fc_request svc ep d) = Inl e"
    and r: "response e = Some r" "status r = 401"
  shows "makeRequestWithRetry svc tr ep d s = (Inl (Some e), s\<lparr>calls := Suc (calls s)\<rparr>)"
proof -
  have m: "fc_maxRetries svc = 1" using new by (rule FalClientService_new_maxRetries)
  have "no_retry e" using r by (simp add: no_retry_def)
  then show ?thesis unfolding makeRequestWithRetry_def
    by (intro retry_loop_no_retry) (simp_all add: m tr)
qed

theorem C3_no_retry_401_witness:
  "makeRequestWithRetry fal_svc (always_status 401 None) ''/fal-ai/pika-1.0'' payload0 net0
     = (Inl (Some (status_error 401 None)), \<lparr>calls = 1, slept = 0\<rparr>)"
  using C3_no_retry_401 [OF fal_svc_new, of "always_status 401 None" net0
      "''/fal-ai/pika-1.0''" payload0 "status_error 401 None"
      "\<lparr>status = 401, data = None, headers = []\<rparr>"]
  by (simp add: always_status_def status_error_def net0_def)

section \<open>The disabled ElevenLabs client\<close>

lemma disabled_new:
  "disabled (ElevenLabsService_new key) = (case key of None \<Rightarrow> True | Some k \<Rightarrow> length k < 10)"
  by (auto simp: ElevenLabsService_new_def split: option.splits)

text \<open>
  C4, as stated, fails: with no key the client is disabled, and \<open>checkHealth\<close> still
  sends its probe (one transport call) and answers \<open>unhealthy\<close>, not SERVICE_DISABLED.
\<close>

theorem C4_counterexample:
  "disabled (ElevenLabsService_new None)
   \<and> el_checkHealth (ElevenLabsService_new None) (always_status 401 []) net0
       = (Health ''unhealthy'' False None (Some ''Request failed with status code 401''),
          \<lparr>calls = 1, slept = 0\<rparr>)"
  by (simp add: ElevenLabsService_new_def el_checkHealth_def axios_def always_status_def
      status_error_def net0_def)

lemma interpolate_ok: "v \<noteq> JObject None \<Longrightarrow> interpolate v = (Inr () :: 'd js_error + unit)"
  by (cases v rule: interpolate.cases) simp_all

lemma default_to_not_bad: "v \<noteq> JObject None \<Longrightarrow> default_to (JString d) v \<noteq> JObject None"
  by (simp add: default_to_def)

text \<open>
  C4, amended. For a client built from an absent key or one shorter than ten characters,
  \<open>generateSpeech\<close> on a text that is a string and a voice id that converts to a string
  returns the SERVICE_DISABLED result at once and leaves the network state as it was (no
  transport call); \<open>checkHealth\<close> does not look at the flag: it makes its one probe call
  and reports \<open>healthy\<close> or \<open>unhealthy\<close>.
\<close>

theorem C4_disabled_generateSpeech:
  assumes "svc = ElevenLabsService_new key"
    and "key = None \<or> (\<exists>k. key = Some k \<and> length k < 10)"
    and "voiceId \<noteq> JObject None"
  shows "generateSpeech svc tr ev (JString t) voiceId stability similarity s =
           (Inr (SpeechFail ''ElevenLabs service is disabled - API key not configured''
                   ''SERVICE_DISABLED'' NoDetails (''tts_'' @ fresh_id ev)), s)
       \<and> calls (snd (el_checkHealth svc tr s)) = calls s + 1
       \<and> (hl_status (fst (el_checkHealth svc tr s)) = ''healthy''
          \<or> hl_status (fst (el_checkHealth svc tr s)) = ''unhealthy'')"
proof -
  have d: "disabled svc" using assms by (auto simp: disabled_new)
  have i: "interpolate (default_to (JString default_voice) voiceId) = (Inr () :: el_error + unit)"
    using assms(3) by (intro interpolate_ok default_to_not_bad)
  show ?thesis using d i
    by (simp add: generateSpeech_def el_checkHealth_def axios_def split: sum.splits prod.splits)
qed

theorem C4_disabled_generateSpeech_witness:
  "generateSpeech el_svc_off (always_ok hello_bytes) env0 (JString ''Hello world'')
      JUndefined JUndefined JUndefined net0 =
           (Inr (SpeechFail ''ElevenLabs service is disabled - API key not configured''
                   ''SERVICE_DISABLED'' NoDetails ''tts_1700000000000_abc123xyz''), net0)
   \<and> calls (snd (el_checkHealth el_svc_off (always_ok hello_bytes) net0)) = calls net0 + 1
   \<and> (hl_status (fst (el_checkHealth el_svc_off (always_ok hello_bytes) net0)) = ''healthy''
      \<or> hl_status (fst (el_checkHealth el_svc_off (always_ok hello_bytes) net0)) = ''unhealthy'')"
  using C4_disabled_generateSpeech [of el_svc_off None JUndefined "always_ok hello_bytes" env0
      "''Hello world''" JUndefined JUndefined net0]
  by (simp add: el_svc_off_def env0_def)

section \<open>Normalisation of the tuning parameters\<close>

text \<open>
  C5. A numeric \<open>stability\<close> or \<open>similarity\<close> above 1 is divided by 100 and clamped to
  \<open>[0, 1]\<close>; one in \<open>[0, 1]\<close> is left as it is.
\<close>

theorem C5_normalize_tuning:
  "(x > 1 \<longrightarrow> normalize_tuning dflt (JNumber x) = min (max (x / 100) 0) 1)
   \<and> (0 \<le> x \<and> x \<le> 1 \<longrightarrow> normalize_tuning dflt (JNumber x) = x)"
  by (simp add: normalize_tuning_def)

theorem C5_normalize_tuning_witness:
  "normalize_tuning 0.5 (JNumber 75) = 0.75 \<and> normalize_tuning 0.5 (JNumber 250) = 1
   \<and> normalize_tuning 0.8 (JNumber 0.3) = 0.3 \<and> normalize_tuning 0.8 (JNumber 1) = 1"
  using C5_normalize_tuning [of 75 "0.5"] C5_normalize_tuning [of 250 "0.5"]
    C5_normalize_tuning [of "0.3" "0.8"] C5_normalize_tuning [of 1 "0.8"]
  by simp

section \<open>The voice id\<close>

lemma el_validateInput_voice:
  "el_validateInput t v = Inr u \<Longrightarrow> truthy v \<and> typeof v = ''string''"
  by (auto simp: el_validateInput_def split: if_splits)

lemma generateSpeech_catch_type:
  "generateSpeech_catch e rid \<noteq> SpeechFail m ''INVALID_VOICE_ID'' d r"
  by (auto simp: generateSpeech_catch_def Let_def split: option.splits)

lemma generateSpeech_try_type:
  "fst (generateSpeech_try svc tr ev rid t v st si s) \<noteq> Inr (SpeechFail m ''INVALID_VOICE_ID'' d r)"
  by (auto simp: generateSpeech_try_def Let_def split: sum.splits prod.splits
      dest: el_validateInput_voice)


lemma el_validateInput_bad_voice:
  "\<not> truthy v \<or> typeof v \<noteq> ''string'' \<Longrightarrow> \<exists>m. el_validateInput t v = Inl (new_Error m)"
  by (auto simp: el_validateInput_def)

lemma generateSpeech_default_voice_run:
  "generateSpeech el_svc (always_ok hello_bytes) env0 (JString ''Hello world'')
      JUndefined JUndefined JUndefined net0 =
     (Inr (SpeechOk ''tts_1700000000000_abc123xyz'' (base64_encode hello_bytes) ''audio/mpeg'' 5 1
             (JString ''Hello world'') (JString default_voice) ''2024-02-27T21:00:00.000Z''),
      \<lparr>calls = 1, slept = 0\<rparr>)"
  by (simp add: generateSpeech_def generateSpeech_try_def el_validateInput_def el_svc_def
      ElevenLabsService_new_def default_to_def default_voice_def env0_def net0_def axios_def
      always_ok_def js_trim_def is_ws_def hello_bytes_def estimateAudioDuration_def)

text \<open>
  C10, as stated, fails for a missing voice id: \<open>undefined\<close> is replaced by the default
  voice, validation passes and the request goes out; here it succeeds.
\<close>

theorem C10_counterexample:
  "generateSpeech el_svc (always_ok hello_bytes) env0 (JString ''Hello world'')
      JUndefined JUndefined JUndefined net0 =
     (Inr (SpeechOk ''tts_1700000000000_abc123xyz'' (base64_encode hello_bytes) ''audio/mpeg'' 5 1
             (JString ''Hello world'') (JString default_voice) ''2024-02-27T21:00:00.000Z''),
      \<lparr>calls = 1, slept = 0\<rparr>)"
  by (rule generateSpeech_default_voice_run)

text \<open>
  C10, amended. No input and no transport make \<open>generateSpeech\<close> return the
  INVALID_VOICE_ID result: \<open>_validateInput\<close> has thrown before on every voice id that
  branch tests for. On an enabled client and a text that is a string, a voice id that is
  given (not \<open>undefined\<close>), converts to a string, and is falsy or not a string gives the
  UNKNOWN_ERROR result, with no transport call.
\<close>

theorem C10_invalid_voice_unreachable:
  "fst (generateSpeech svc tr ev text_in voiceId stability similarity s)
     \<noteq> Inr (SpeechFail m ''INVALID_VOICE_ID'' d r)
   \<and> (\<not> disabled svc \<and> text_in = JString t \<and> voiceId \<noteq> JUndefined
        \<and> voiceId \<noteq> JObject None
        \<and> (\<not> truthy voiceId \<or> typeof voiceId \<noteq> ''string'')
      \<longrightarrow> (\<exists>msg. generateSpeech svc tr ev text_in voiceId stability similarity s =
            (Inr (SpeechFail ''Unexpected error during speech synthesis'' ''UNKNOWN_ERROR''
                    (MessageDetails msg) (''tts_'' @ fresh_id ev)), s)))"
proof (intro conjI impI)
  show "fst (generateSpeech svc tr ev text_in voiceId stability similarity s)
     \<noteq> Inr (SpeechFail m ''INVALID_VOICE_ID'' d r)"
    using generateSpeech_try_type [of svc tr ev "''tts_'' @ fresh_id ev" text_in
        "default_to (JString default_voice) voiceId" "default_to (JNumber 0.5) stability"
        "default_to (JNumber 0.8) similarity" s m d r]
    by (auto simp: generateSpeech_def Let_def generateSpeech_catch_type
        split: sum.splits prod.splits)
next
  assume a: "\<not> disabled svc \<and> text_in = JString t \<and> voiceId \<noteq> JUndefined
        \<and> voiceId \<noteq> JObject None
        \<and> (\<not> truthy voiceId \<or> typeof voiceId \<noteq> ''string'')"
  then obtain m where e: "el_validateInput text_in voiceId = Inl (new_Error m)"
    using el_validateInput_bad_voice by blast
  from a have i: "interpolate voiceId = (Inr () :: el_error + unit)"
    by (simp add: interpolate_ok)
  from e a i show "\<exists>msg. generateSpeech svc tr ev text_in voiceId stability similarity s =
            (Inr (SpeechFail ''Unexpected error during speech synthesis'' ''UNKNOWN_ERROR''
                    (MessageDetails msg) (''tts_'' @ fresh_id ev)), s)"
    by (simp add: generateSpeech_def generateSpeech_try_def generateSpeech_catch_def
        default_to_def new_Error_def)
qed

theorem C10_invalid_voice_unreachable_witness:
  "fst (generateSpeech el_svc (always_ok hello_bytes) env0 (JString ''Hello world'')
      JNull JUndefined JUndefined net0)
     \<noteq> Inr (SpeechFail ''Invalid voice ID provided'' ''INVALID_VOICE_ID'' NoDetails
            ''tts_1700000000000_abc123xyz'')
   \<and> (\<exists>msg. generateSpeech el_svc (always_ok hello_bytes) env0 (JString ''Hello world'')
      JNull JUndefined JUndefined net0 =
        (Inr (SpeechFail ''Unexpected error during speech synthesis'' ''UNKNOWN_ERROR''
                (MessageDetails msg) ''tts_1700000000000_abc123xyz''), net0))"
proof -
  have "\<not> disabled el_svc" by (simp add: el_svc_def ElevenLabsService_new_def)
  with C10_invalid_voice_unreachable [of el_svc "always_ok hello_bytes" env0
      "JString ''Hello world''" JNull JUndefined JUndefined net0
      "''Invalid voice ID provided''" NoDetails "''tts_1700000000000_abc123xyz''"
      "''Hello world''"]
  show ?thesis by (simp add: env0_def)
qed

section \<open>A provider that answers 429\<close>

lemma calls_net0: "calls net0 = 0"
  by (simp add: net0_def)

lemma calls_sleep: "calls (sleep ms s) = calls s"
  by (simp add: sleep_def)

text \<open>
  If one of the transport calls made by the loop is answered with status 429, that call
  is the loop's last and its error is what the loop throws: on the first attempt or on
  the retry.
\<close>

lemma retry_loop_429:
  "\<lbrakk>\<forall>cfg. \<exists>e r. tr n cfg = Inl e \<and> response e = Some r \<and> status r = 429;
    retry_loop svc tr ep d attempt le s = (R, s'); calls s \<le> n; n < calls s'\<rbrakk>
   \<Longrightarrow> \<exists>e r. R = Inl (Some e) \<and> response e = Some r \<and> status r = 429"
proof (induction svc tr ep d attempt le s rule: retry_loop.induct)
  case (1 svc tr endpoint d attempt lastError s)
  note tr = "1.prems"(1) and run = "1.prems"(2) and lo = "1.prems"(3) and hi = "1.prems"(4)
  let ?cfg = "fc_request svc endpoint d"
  let ?s1 = "s\<lparr>calls := Suc (calls s)\<rparr>"
  obtain e0 r0 where e0: "tr n ?cfg = Inl e0" "response e0 = Some r0" "status r0 = 429"
    using tr by blast
  then have nr0: "no_retry e0" by (simp add: no_retry_def)
  show ?case
  proof (cases "attempt \<le> fc_maxRetries svc + 1")
    case False
    with run have "s' = s" by (subst (asm) retry_loop.simps) simp
    with lo hi show ?thesis by simp
  next
    case True
    have ax: "(tr (calls s) ?cfg, ?s1) = axios tr ?cfg s" by (simp add: axios_def)
    show ?thesis
    proof (cases "n = calls s")
      case n: True
      with True run e0 nr0 have "R = Inl (Some e0)"
        by (subst (asm) retry_loop.simps) (simp add: axios_def)
      with e0 show ?thesis by simp
    next
      case n: False
      with lo have lo': "Suc (calls s) \<le> n" by simp
      show ?thesis
      proof (cases "tr (calls s) ?cfg")
        case (Inr resp)
        with True run have "s' = ?s1" by (subst (asm) retry_loop.simps) (simp add: axios_def)
        with lo' hi show ?thesis by simp
      next
        case (Inl e)
        show ?thesis
        proof (cases "no_retry e")
          case True
          with \<open>attempt \<le> fc_maxRetries svc + 1\<close> run Inl have "s' = ?s1"
            by (subst (asm) retry_loop.simps) (simp add: axios_def)
          with lo' hi show ?thesis by simp
        next
          case False
          let ?s2 = "if attempt \<le> fc_maxRetries svc then sleep 2000 ?s1 else ?s1"
          from \<open>attempt \<le> fc_maxRetries svc + 1\<close> run Inl False
          have run': "retry_loop svc tr endpoint d (attempt + 1) (Some e) ?s2 = (R, s')"
            by (subst (asm) retry_loop.simps) (simp add: axios_def)
          have lo2: "calls ?s2 \<le> n" using lo' by (simp add: calls_sleep)
          from "1.IH" [OF \<open>attempt \<le> fc_maxRetries svc + 1\<close> ax Inl False tr run' lo2 hi]
          show ?thesis .
        qed
      qed
    qed
  qed
qed

lemma generateVideo_try_429:
  assumes tr: "\<forall>cfg. \<exists>e r. tr n cfg = Inl e \<and> response e = Some r \<and> status r = 429"
    and run: "generateVideo_try svc tr ev rid p d a s = (R, s')"
    and lo: "calls s \<le> n" and hi: "n < calls s'"
  shows "\<exists>e r. R = Inl (Some e) \<and> response e = Some r \<and> status r = 429"
proof (cases "fc_validateInput p d a")
  case (Inl e)
  with run have "s' = s" by (simp add: generateVideo_try_def)
  with lo hi show ?thesis by simp
next
  case (Inr u)
  let ?pl = "\<lparr>pl_prompt = js_trim (str_of p), pl_num_frames = \<lfloor>num_of d * 24\<rfloor>,
      pl_aspect_ratio = a, pl_guidance_scale = 7.5, pl_num_inference_steps = 50,
      pl_negative_prompt = negative_prompt, pl_seed = random_seed ev\<rparr>"
  obtain R0 s0 where mr: "retry_loop svc tr ''/fal-ai/pika-1.0'' ?pl 1 None s = (R0, s0)"
    by (cases "retry_loop svc tr ''/fal-ai/pika-1.0'' ?pl 1 None s")
  from run Inr mr have s0: "s' = s0"
    by (auto simp: generateVideo_try_def makeRequestWithRetry_def Let_def
        split: sum.splits option.splits)
  from retry_loop_429 [OF tr mr lo] hi s0
  obtain e r where e: "R0 = Inl (Some e)" "response e = Some r" "status r = 429" by blast
  with run Inr mr have "R = Inl (Some e)"
    by (simp add: generateVideo_try_def makeRequestWithRetry_def Let_def)
  with e show ?thesis by simp
qed

lemma generateVideo_429:
  assumes tr: "\<forall>cfg. \<exists>e r. tr n cfg = Inl e \<and> response e = Some r \<and> status r = 429"
    and run: "generateVideo svc tr ev params s = (R, s')"
    and lo: "calls s \<le> n" and hi: "n < calls s'"
  shows "\<exists>d. R = Inr (VideoFail (''req_'' @ fresh_id ev) ''Rate limit exceeded - too many requests''
                   ''RATE_LIMITED'' d)"
proof -
  let ?p = "in_prompt params"
  let ?d = "default_to (JNumber 5) (in_duration params)"
  let ?a = "default_to (JString ''16:9'') (in_aspectRatio params)"
  let ?run = "generateVideo_try svc tr ev (''req_'' @ fresh_id ev) ?p ?d ?a s"
  obtain R1 s1 where t: "?run = (R1, s1)" by (cases ?run)
  from lo hi have ne: "s' \<noteq> s" by auto
  from run ne t have s1: "s1 = s'" and
    R: "R = (case R1 of Inr result \<Rightarrow> Inr result
             | Inl None \<Rightarrow> Inl (new_TypeError ''Cannot read properties of null (reading message)'')
             | Inl (Some error) \<Rightarrow>
                 Inr (VideoFail (''req_'' @ fresh_id ev) (h_message (fc_handleError svc error))
                        (h_type (fc_handleError svc error)) (h_details (fc_handleError svc error))))"
    by (auto simp: generateVideo_def Let_def split: sum.splits option.splits)
  from generateVideo_try_429 [OF tr t lo] hi s1
  obtain e r where "R1 = Inl (Some e)" "response e = Some r" "status r = 429" by blast
  with R show ?thesis by (simp add: fc_handleError_def)
qed

lemma generateSpeech_try_429:
  assumes tr: "\<forall>cfg. \<exists>e r. tr n cfg = Inl e \<and> response e = Some r \<and> status r = 429"
    and run: "generateSpeech_try svc tr ev rid t v st si s = (R, s')"
    and lo: "calls s \<le> n" and hi: "n < calls s'"
  shows "\<exists>e r. R = Inl e \<and> response e = Some r \<and> status r = 429"
proof (cases "el_validateInput t v")
  case (Inl e)
  with run have "s' = s" by (simp add: generateSpeech_try_def)
  with lo hi show ?thesis by simp
next
  case (Inr u)
  then have ok: "truthy v \<and> typeof v = ''string''" by (rule el_validateInput_voice)
  let ?vid = "if js_trim (str_of v) \<noteq> [] then js_trim (str_of v) else default_voice"
  let ?cfg = "el_request svc ?vid
      \<lparr>el_text = js_trim (str_of t), el_voice_id = ?vid, el_model_id = ''eleven_multilingual_v2'',
       el_voice_settings = \<lparr>vs_stability = st, vs_similarity_boost = si, vs_style = 0,
         vs_use_speaker_boost = True\<rparr>\<rparr>"
  from run Inr ok have "s' = s\<lparr>calls := Suc (calls s)\<rparr>"
    by (auto simp: generateSpeech_try_def axios_def Let_def split: sum.splits)
  with lo hi have n: "n = calls s" by simp
  obtain e r where e: "tr (calls s) ?cfg = Inl e" "response e = Some r" "status r = 429"
    using tr n by blast
  with run Inr ok show ?thesis
    by (auto simp: generateSpeech_try_def axios_def Let_def)
qed

lemma generateSpeech_429:
  assumes tr: "\<forall>cfg. \<exists>e r. tr n cfg = Inl e \<and> response e = Some r \<and> status r = 429"
    and run: "generateSpeech svc tr ev t v st si s = (R, s')"
    and lo: "calls s \<le> n" and hi: "n < calls s'"
  shows "\<exists>d. R = Inr (SpeechFail ''Rate limit exceeded - too many requests to ElevenLabs''
                   ''RATE_LIMITED'' d (''tts_'' @ fresh_id ev))"
proof -
  let ?run = "generateSpeech_try svc tr ev (''tts_'' @ fresh_id ev) t
      (default_to (JString default_voice) v) (default_to (JNumber 0.5) st)
      (default_to (JNumber 0.8) si) s"
  obtain R1 s1 where t: "?run = (R1, s1)" by (cases ?run)
  from lo hi have ne: "s' \<noteq> s" by auto
  from run ne t have s1: "s1 = s'" and
    R: "R = (case R1 of Inr result \<Rightarrow> Inr result
             | Inl e \<Rightarrow> Inr (generateSpeech_catch e (''tts_'' @ fresh_id ev)))"
    by (auto simp: generateSpeech_def Let_def split: sum.splits if_splits)
  from generateSpeech_try_429 [OF tr t lo] hi s1
  obtain e r where "R1 = Inl e" "response e = Some r" "status r = 429" by blast
  with R show ?thesis by (simp add: generateSpeech_catch_def)
qed

lemma tts_route_429_run:
  "tts_route (Some el_svc) (Some ''sk_0123456789abcdef'') None [] (JString ''user_123'')
      (always_status 429 []) env0 env0 tts_body0 net0 =
   (Inr \<lparr>http_status = 429, rp_success = False,
         rp_error = Some ''Rate limit exceeded - too many requests to ElevenLabs'',
         rp_errorType = Some ''RATE_LIMITED'',
         rp_message = Some ''Too many speech synthesis requests. Please wait and try again later.'',
         rp_details = ServiceDetails (DataDetails []), rp_result = None,
         rp_requestId = ''api_1700000000000_abc123xyz''\<rparr>, \<lparr>calls = 1, slept = 0\<rparr>)"
  by (simp add: tts_route_def tts_body0_def key_set_def generateSpeech_def generateSpeech_try_def
      generateSpeech_catch_def el_validateInput_def el_svc_def
      ElevenLabsService_new_def default_to_def default_voice_def env0_def net0_def axios_def
      always_status_def status_error_def js_trim_def is_ws_def
      audio_getStatusCodeForError_def audio_getUserFriendlyMessage_def)

lemma video_route_500_429_run:
  "calls (snd (video_route (Some fal_svc) (Some ''fal-key-0123456789'') None []
      (JString ''user_123'') (then_status 500 429 None) env0 env0 video_body0 net0)) = 2"
  by (simp add: video_route_def video_body0_def key_set_def generateVideo_def generateVideo_try_def
      fc_validateInput_def makeRequestWithRetry_def retry_loop.simps no_retry_def
      fal_svc_def default_to_def env0_def net0_def axios_def sleep_def
      then_status_def status_error_def js_trim_def is_ws_def fc_handleError_def js_or_def
      video_getStatusCodeForError_def video_getUserFriendlyMessage_def)

lemma test_tts_route_429_run:
  "test_tts_route (Some el_svc) (always_status 429 []) env0 env0 tts_body0 net0 =
   (\<lparr>http_status = 500, rp_success = False,
      rp_error = Some ''Rate limit exceeded - too many requests to ElevenLabs'',
      rp_errorType = Some ''RATE_LIMITED'', rp_message = None,
      rp_details = ServiceDetails (DataDetails []), rp_result = None,
      rp_requestId = ''test_1700000000000_abc123xyz''\<rparr>, \<lparr>calls = 1, slept = 0\<rparr>)"
  by (simp add: test_tts_route_def tts_body0_def generateSpeech_def generateSpeech_try_def
      generateSpeech_catch_def el_validateInput_def el_svc_def
      ElevenLabsService_new_def default_to_def default_voice_def env0_def net0_def axios_def
      always_status_def status_error_def js_trim_def is_ws_def)

text \<open>
  C8, as stated, fails: it speaks of every call, and \<open>POST /api/test/tts\<close> sends the
  RATE_LIMITED result of the same \<open>generateSpeech\<close> out with HTTP status 500.
\<close>

theorem C8_counterexample:
  "test_tts_route (Some el_svc) (always_status 429 []) env0 env0 tts_body0 net0 =
   (\<lparr>http_status = 500, rp_success = False,
      rp_error = Some ''Rate limit exceeded - too many requests to ElevenLabs'',
      rp_errorType = Some ''RATE_LIMITED'', rp_message = None,
      rp_details = ServiceDetails (DataDetails []), rp_result = None,
      rp_requestId = ''test_1700000000000_abc123xyz''\<rparr>, \<lparr>calls = 1, slept = 0\<rparr>)"
  by (rule test_tts_route_429_run)

text \<open>
  C8, amended. Take a call of \<open>POST /api/audio/tts\<close> or of \<open>POST /api/video/generate\<close>
  during which the provider is called and answers one of the calls (the \<open>n\<close>-th of the
  transport, the first attempt or the retry) with HTTP status 429. The reply has HTTP
  status 429, \<open>success\<close> false and error type RATE_LIMITED. For \<open>POST /api/test/tts\<close>
  the reply has \<open>success\<close> false and error type RATE_LIMITED too, with HTTP status 500.
\<close>

theorem C8_rate_limited:
  "(calls s \<le> n \<and> n < calls (snd (tts_route esvc ekey nenv errs uid etr renv ev body s))
      \<and> (\<forall>cfg. \<exists>e r. etr n cfg = Inl e \<and> response e = Some r \<and> status r = 429)
    \<longrightarrow> (\<exists>rp. fst (tts_route esvc ekey nenv errs uid etr renv ev body s) = Inr rp
          \<and> http_status rp = 429 \<and> rp_success rp = False
          \<and> rp_errorType rp = Some ''RATE_LIMITED''))
   \<and> (calls s \<le> n \<and> n < calls (snd (video_route fsvc fkey nenv errs uid ftr renv ev vbody s))
      \<and> (\<forall>cfg. \<exists>e r. ftr n cfg = Inl e \<and> response e = Some r \<and> status r = 429)
    \<longrightarrow> (\<exists>rp. fst (video_route fsvc fkey nenv errs uid ftr renv ev vbody s) = Inr rp
          \<and> http_status rp = 429 \<and> rp_success rp = False
          \<and> rp_errorType rp = Some ''RATE_LIMITED''))
   \<and> (calls s \<le> n \<and> n < calls (snd (test_tts_route esvc etr renv ev body s))
      \<and> (\<forall>cfg. \<exists>e r. etr n cfg = Inl e \<and> response e = Some r \<and> status r = 429)
    \<longrightarrow> http_status (fst (test_tts_route esvc etr renv ev body s)) = 500
        \<and> rp_success (fst (test_tts_route esvc etr renv ev body s)) = False
        \<and> rp_errorType (fst (test_tts_route esvc etr renv ev body s)) = Some ''RATE_LIMITED'')"
proof (intro conjI impI)
  assume a: "calls s \<le> n \<and> n < calls (snd (tts_route esvc ekey nenv errs uid etr renv ev body s))
      \<and> (\<forall>cfg. \<exists>e r. etr n cfg = Inl e \<and> response e = Some r \<and> status r = 429)"
  then have tr: "\<forall>cfg. \<exists>e r. etr n cfg = Inl e \<and> response e = Some r \<and> status r = 429"
    by blast
  from a show "\<exists>rp. fst (tts_route esvc ekey nenv errs uid etr renv ev body s) = Inr rp
          \<and> http_status rp = 429 \<and> rp_success rp = False
          \<and> rp_errorType rp = Some ''RATE_LIMITED''"
    by (auto simp: tts_route_def Let_def audio_getStatusCodeForError_def
        split: sum.splits option.splits if_splits prod.splits
        dest!: generateSpeech_429 [where tr = etr and n = n and s = s, OF tr])
next
  assume a: "calls s \<le> n \<and> n < calls (snd (video_route fsvc fkey nenv errs uid ftr renv ev vbody s))
      \<and> (\<forall>cfg. \<exists>e r. ftr n cfg = Inl e \<and> response e = Some r \<and> status r = 429)"
  then have tr: "\<forall>cfg. \<exists>e r. ftr n cfg = Inl e \<and> response e = Some r \<and> status r = 429"
    by blast
  from a show "\<exists>rp. fst (video_route fsvc fkey nenv errs uid ftr renv ev vbody s) = Inr rp
          \<and> http_status rp = 429 \<and> rp_success rp = False
          \<and> rp_errorType rp = Some ''RATE_LIMITED''"
    by (auto simp: video_route_def Let_def video_getStatusCodeForError_def
        split: sum.splits option.splits if_splits prod.splits
        dest!: generateVideo_429 [where tr = ftr and n = n and s = s, OF tr])
next
  assume a: "calls s \<le> n \<and> n < calls (snd (test_tts_route esvc etr renv ev body s))
      \<and> (\<forall>cfg. \<exists>e r. etr n cfg = Inl e \<and> response e = Some r \<and> status r = 429)"
  then have tr: "\<forall>cfg. \<exists>e r. etr n cfg = Inl e \<and> response e = Some r \<and> status r = 429"
    by blast
  from a show "http_status (fst (test_tts_route esvc etr renv ev body s)) = 500"
    and "rp_success (fst (test_tts_route esvc etr renv ev body s)) = False"
    and "rp_errorType (fst (test_tts_route esvc etr renv ev body s)) = Some ''RATE_LIMITED''"
    by (auto simp: test_tts_route_def Let_def
        split: sum.splits option.splits if_splits prod.splits
        dest!: generateSpeech_429 [where tr = etr and n = n and s = s, OF tr])
qed

theorem C8_rate_limited_witness:
  "(\<exists>rp. fst (tts_route (Some el_svc) (Some ''sk_0123456789abcdef'') None []
              (JString ''user_123'') (always_status 429 []) env0 env0 tts_body0 net0) = Inr rp
          \<and> http_status rp = 429 \<and> rp_success rp = False
          \<and> rp_errorType rp = Some ''RATE_LIMITED'')
   \<and> (\<exists>rp. fst (video_route (Some fal_svc) (Some ''fal-key-0123456789'') None []
              (JString ''user_123'') (then_status 500 429 None) env0 env0 video_body0 net0) = Inr rp
          \<and> http_status rp = 429 \<and> rp_success rp = False
          \<and> rp_errorType rp = Some ''RATE_LIMITED'')"
proof -
  have e: "\<forall>cfg. \<exists>e r. (always_status 429 [] :: el_transport) 0 cfg = Inl e
             \<and> response e = Some r \<and> status r = 429"
    by (simp add: always_status_def status_error_def)
  have f: "\<forall>cfg. \<exists>e r. (then_status 500 429 None :: fal_transport) 1 cfg = Inl e
             \<and> response e = Some r \<and> status r = 429"
    by (simp add: then_status_def status_error_def)
  have ce: "0 < calls (snd (tts_route (Some el_svc) (Some ''sk_0123456789abcdef'') None []
              (JString ''user_123'') (always_status 429 []) env0 env0 tts_body0 net0))"
    by (simp add: tts_route_429_run)
  have cf: "1 < calls (snd (video_route (Some fal_svc) (Some ''fal-key-0123456789'') None []
      (JString ''user_123'') (then_status 500 429 None) env0 env0 video_body0 net0))"
    by (simp add: video_route_500_429_run)
  from C8_rate_limited [THEN conjunct1, of net0 0 "Some el_svc"
      "Some ''sk_0123456789abcdef''" None "[]" "JString ''user_123''" "always_status 429 []"
      env0 env0 tts_body0] e ce
  have 1: "\<exists>rp. fst (tts_route (Some el_svc) (Some ''sk_0123456789abcdef'') None []
              (JString ''user_123'') (always_status 429 []) env0 env0 tts_body0 net0) = Inr rp
          \<and> http_status rp = 429 \<and> rp_success rp = False
          \<and> rp_errorType rp = Some ''RATE_LIMITED''"
    by (simp add: calls_net0)
  from C8_rate_limited [THEN conjunct2, THEN conjunct1, of net0 1 "Some fal_svc"
      "Some ''fal-key-0123456789''" None "[]" "JString ''user_123''" "then_status 500 429 None"
      env0 env0 video_body0] f cf
  have 2: "\<exists>rp. fst (video_route (Some fal_svc) (Some ''fal-key-0123456789'') None []
              (JString ''user_123'') (then_status 500 429 None) env0 env0 video_body0 net0) = Inr rp
          \<and> http_status rp = 429 \<and> rp_success rp = False
          \<and> rp_errorType rp = Some ''RATE_LIMITED''"
    by (simp add: calls_net0)
  from 1 2 show ?thesis by blast
qed

section \<open>Failures are returned, not thrown\<close>





lemma generateSpeech_catch_fail:
  "\<exists>m ty dt. generateSpeech_catch e rid = SpeechFail m ty dt rid"
  by (simp add: generateSpeech_catch_def Let_def split: option.splits)






section \<open>Rejection before the transport\<close>

text \<open>
  A prompt or text that is missing, not a string, or empty after trimming never reaches
  the transport, and the operation does not succeed.
\<close>

lemma generateVideo_rejects_before_transport:
  assumes "\<not> truthy (in_prompt params) \<or> typeof (in_prompt params) \<noteq> ''string''
           \<or> js_trim (str_of (in_prompt params)) = []"
  shows "snd (generateVideo svc tr ev params s) = s
       \<and> (\<forall>r. fst (generateVideo svc tr ev params s) \<noteq> Inr r \<or> \<not> success r)"
proof (cases "in_prompt params")
  case (JString p)
  with assms have "\<exists>m. fc_validateInput (in_prompt params) d a = Inl (new_Error m)" for d a
    by (auto simp: fc_validateInput_def)
  then obtain m where "fc_validateInput (in_prompt params)
      (default_to (JNumber 5) (in_duration params))
      (default_to (JString ''16:9'') (in_aspectRatio params)) = Inl (new_Error m)" by blast
  with JString show ?thesis
    by (simp add: generateVideo_def generateVideo_try_def Let_def split: sum.splits)
qed (simp_all add: generateVideo_def Let_def)

lemma generateSpeech_rejects_before_transport:
  assumes "\<not> truthy text_in \<or> typeof text_in \<noteq> ''string'' \<or> js_trim (str_of text_in) = []"
  shows "snd (generateSpeech svc tr ev text_in voiceId stability similarity s) = s
       \<and> (\<forall>r. fst (generateSpeech svc tr ev text_in voiceId stability similarity s) \<noteq> Inr r
              \<or> \<not> sp_success r)"
proof (cases text_in)
  case (JString p)
  with assms have "\<exists>m. el_validateInput text_in v = Inl (new_Error m)" for v
    by (auto simp: el_validateInput_def)
  then obtain m where "el_validateInput text_in (default_to (JString default_voice) voiceId)
      = Inl (new_Error m)" by blast
  with JString generateSpeech_catch_fail [of "new_Error m" "''tts_'' @ fresh_id ev"]
  show ?thesis
    by (auto simp: generateSpeech_def generateSpeech_try_def Let_def split: sum.splits)
qed (simp_all add: generateSpeech_def Let_def)

text \<open>
  C6 (the code departs from it). The claim: a missing or non-string prompt or text is
  rejected with a validation error, before any transport call. No transport call is made,
  but the rejection is not the validation's: the log line ahead of the \<open>try\<close> reads
  \<open>prompt.substring\<close> (\<open>text.substring\<close>), so a TypeError leaves the operation, although
  \<open>_validateInput\<close> has the check for a missing or non-string field and its own message.
\<close>

theorem C6_missing_field_type_error:
  "generateVideo fal_svc (always_ok None) env0
      \<lparr>in_prompt = JUndefined, in_duration = JUndefined, in_aspectRatio = JUndefined\<rparr> net0
     = (Inl (new_TypeError ''Cannot read properties of undefined (reading substring)''), net0)
   \<and> fc_validateInput JUndefined (JNumber 5) (JString ''16:9'')
     = Inl (new_Error ''Prompt is required and must be a string'')
   \<and> generateSpeech el_svc (always_ok hello_bytes) env0 JUndefined JUndefined JUndefined
      JUndefined net0
     = (Inl (new_TypeError ''Cannot read properties of undefined (reading substring)''), net0)
   \<and> el_validateInput JUndefined (JString default_voice)
     = Inl (new_Error ''Text is required and must be a string'')"
  by (simp add: generateVideo_def generateSpeech_def fc_validateInput_def el_validateInput_def)

theorem C6_missing_field_type_error_witness:
  "fst (generateVideo fal_svc (always_ok None) env0
      \<lparr>in_prompt = JUndefined, in_duration = JUndefined, in_aspectRatio = JUndefined\<rparr> net0)
     \<noteq> Inl (new_Error ''Prompt is required and must be a string'')"
  using C6_missing_field_type_error by (simp add: new_Error_def new_TypeError_def)

section \<open>The audio round trip\<close>

lemma b64_alphabet_length: "length b64_alphabet = 64"
  by (simp add: b64_alphabet_def)

lemma b64_alphabet_distinct: "distinct b64_alphabet"
  by (simp add: b64_alphabet_def)

lemma b64_index_char: "i < 64 \<Longrightarrow> b64_index (b64_char i) = Some i"
proof -
  assume i: "i < 64"
  have "map_of (zip b64_alphabet [0..<64]) (b64_alphabet ! i) = Some ([0..<64] ! i)"
    by (rule map_of_zip_nth) (simp_all add: b64_alphabet_length b64_alphabet_distinct i)
  with i show ?thesis by (simp add: b64_index_def b64_char_def)
qed

lemma b64_char_not_pad: "i < 64 \<Longrightarrow> b64_char i \<noteq> CHR ''=''"
proof -
  assume i: "i < 64"
  have "CHR ''='' \<notin> set b64_alphabet" by (simp add: b64_alphabet_def)
  moreover have "b64_char i \<in> set b64_alphabet"
    using i by (simp add: b64_char_def b64_alphabet_length)
  ultimately show ?thesis by metis
qed

lemma unat_byte_lt: "unat (a :: byte) < 256"
  using unsigned_less [of a, where ?'a = nat] by simp

lemma split24:
  fixes n :: nat
  shows "(n div 262144) * 262144 + (n div 4096 mod 64) * 4096 + (n div 64 mod 64) * 64 + n mod 64 = n"
proof -
  define d1 where "d1 = n div 64"
  define d2 where "d2 = n div 4096"
  define d3 where "d3 = n div 262144"
  define m0 where "m0 = n mod 64"
  define m1 where "m1 = d1 mod 64"
  define m2 where "m2 = d2 mod 64"
  have e2: "d2 = d1 div 64" by (simp add: d1_def d2_def div_mult2_eq [symmetric])
  have e3: "d3 = d2 div 64" by (simp add: d2_def d3_def div_mult2_eq [symmetric])
  have a: "n = d1 * 64 + m0" by (simp add: d1_def m0_def)
  have b: "d1 = d2 * 64 + m1" by (simp add: e2 m1_def)
  have c: "d2 = d3 * 64 + m2" by (simp add: e3 m2_def)
  have "d3 * 262144 + m2 * 4096 + m1 * 64 + m0 = n"
    using a b c by linarith
  then show ?thesis by (simp add: d1_def d2_def d3_def m0_def m1_def m2_def)
qed

lemma group3_bytes:
  fixes a b c :: nat
  assumes "a < 256" "b < 256" "c < 256"
  shows "(a * 65536 + b * 256 + c) div 65536 = a"
    and "(a * 65536 + b * 256 + c) div 256 mod 256 = b"
    and "(a * 65536 + b * 256 + c) mod 256 = c"
proof -
  have r: "b * 256 + c < 65536" using assms by linarith
  show "(a * 65536 + b * 256 + c) div 65536 = a"
    using r by (simp add: add.assoc)
  have e: "a * 65536 + b * 256 + c = c + (a * 256 + b) * 256" by simp
  have "(c + (a * 256 + b) * 256) div 256 = a * 256 + b"
    using assms by simp
  then show "(a * 65536 + b * 256 + c) div 256 mod 256 = b"
    using assms by (simp only: e) simp
  have "(c + (a * 256 + b) * 256) mod 256 = c"
    using assms by (simp only: mod_mult_self1) simp
  then show "(a * 65536 + b * 256 + c) mod 256 = c"
    by (simp only: e)
qed


lemma split18:
  fixes q :: nat
  shows "(q div 4096) * 4096 + (q div 64 mod 64) * 64 + q mod 64 = q"
proof -
  define d1 where "d1 = q div 64"
  define d2 where "d2 = q div 4096"
  define m0 where "m0 = q mod 64"
  define m1 where "m1 = d1 mod 64"
  have e2: "d2 = d1 div 64" by (simp add: d1_def d2_def div_mult2_eq [symmetric])
  have a: "q = d1 * 64 + m0" by (simp add: d1_def m0_def)
  have b: "d1 = d2 * 64 + m1" by (simp add: e2 m1_def)
  have "d2 * 4096 + m1 * 64 + m0 = q" using a b by linarith
  then show ?thesis by (simp add: d1_def d2_def m0_def m1_def)
qed

lemma group2_bytes:
  fixes a b :: nat
  assumes "a < 256" "b < 256"
  defines "n \<equiv> a * 65536 + b * 256"
  shows "((n div 262144) * 4096 + (n div 4096 mod 64) * 64 + n div 64 mod 64) div 1024 = a"
    and "((n div 262144) * 4096 + (n div 4096 mod 64) * 64 + n div 64 mod 64) div 4 mod 256 = b"
proof -
  define q where "q = n div 64"
  have q: "q = b * 4 + a * 1024" by (simp add: q_def n_def)
  have "q div 4096 = n div 262144" "q div 64 = n div 4096"
    by (simp_all add: q_def div_mult2_eq [symmetric])
  with split18 [of q]
  have m: "(n div 262144) * 4096 + (n div 4096 mod 64) * 64 + n div 64 mod 64 = q"
    by (simp add: q_def)
  have "b * 4 < 1024" using assms by linarith
  then have "q div 1024 = a" by (simp add: q)
  then show "((n div 262144) * 4096 + (n div 4096 mod 64) * 64 + n div 64 mod 64) div 1024 = a"
    by (simp only: m)
  have "q div 4 = b + a * 256" by (simp add: q)
  then have "q div 4 mod 256 = b" using assms by simp
  then show "((n div 262144) * 4096 + (n div 4096 mod 64) * 64 + n div 64 mod 64) div 4 mod 256 = b"
    by (simp only: m)
qed

lemma group1_bytes:
  fixes a :: nat
  defines "n \<equiv> a * 65536"
  shows "((n div 262144) * 64 + n div 4096 mod 64) div 16 = a"
proof -
  define q where "q = n div 4096"
  have q: "q = a * 16" by (simp add: q_def n_def)
  have d: "q div 64 = n div 262144" by (simp add: q_def div_mult2_eq [symmetric])
  have "q div 64 * 64 + q mod 64 = q" by simp
  then have "(n div 262144) * 64 + q mod 64 = q" by (simp only: d)
  then have "((n div 262144) * 64 + q mod 64) div 16 = a" by (simp add: q)
  then show ?thesis by (simp only: q_def)
qed

lemma top_index_lt:
  fixes a b c :: nat
  assumes "a < 256" "b < 256" "c < 256"
  shows "(a * 65536 + b * 256 + c) div 262144 < 64"
proof -
  have "a * 65536 + b * 256 + c < 64 * 262144" using assms by linarith
  then show ?thesis by (simp add: less_mult_imp_div_less)
qed

lemma decode_group3:
  fixes a b c :: byte
  defines "n \<equiv> unat a * 65536 + unat b * 256 + unat c"
  shows "base64_decode (b64_char (n div 262144) # b64_char (n div 4096 mod 64)
           # b64_char (n div 64 mod 64) # b64_char (n mod 64) # cs)
         = a # b # c # base64_decode cs"
proof -
  have lt: "n div 262144 < 64"
    unfolding n_def by (rule top_index_lt) (rule unat_byte_lt)+
  have n: "(n div 262144) * 262144 + (n div 4096 mod 64) * 4096 + (n div 64 mod 64) * 64
             + n mod 64 = n" by (rule split24)
  have by3: "n div 65536 = unat a" "n div 256 mod 256 = unat b" "n mod 256 = unat c"
    unfolding n_def by (rule group3_bytes; rule unat_byte_lt)+
  show ?thesis
    by (simp add: b64_index_char b64_char_not_pad lt n by3)
qed


lemma top_index_lt2:
  fixes a b :: nat
  assumes "a < 256" "b < 256"
  shows "(a * 65536 + b * 256) div 262144 < 64"
  using top_index_lt [OF assms, of 0] by simp

lemma decode_group2:
  fixes a b :: byte
  defines "n \<equiv> unat a * 65536 + unat b * 256"
  shows "base64_decode [b64_char (n div 262144), b64_char (n div 4096 mod 64),
           b64_char (n div 64 mod 64), CHR ''='']
         = [a, b]"
proof -
  have lt: "n div 262144 < 64"
    unfolding n_def by (rule top_index_lt2) (rule unat_byte_lt)+
  have by2:
    "((n div 262144) * 4096 + (n div 4096 mod 64) * 64 + n div 64 mod 64) div 1024 = unat a"
    "((n div 262144) * 4096 + (n div 4096 mod 64) * 64 + n div 64 mod 64) div 4 mod 256 = unat b"
    unfolding n_def by (rule group2_bytes; rule unat_byte_lt)+
  show ?thesis
    by (simp add: b64_index_char b64_char_not_pad lt by2)
qed

lemma decode_group1:
  fixes a :: byte
  defines "n \<equiv> unat a * 65536"
  shows "base64_decode [b64_char (n div 262144), b64_char (n div 4096 mod 64),
           CHR ''='', CHR ''='']
         = [a]"
proof -
  have lt: "n div 262144 < 64"
    unfolding n_def using top_index_lt2 [OF unat_byte_lt [of a], of 0] by simp
  have by1: "((n div 262144) * 64 + n div 4096 mod 64) div 16 = unat a"
    unfolding n_def by (rule group1_bytes)
  show ?thesis
    by (simp add: b64_index_char b64_char_not_pad lt by1)
qed

lemma base64_roundtrip: "base64_decode (base64_encode bs) = bs"
proof (induction bs rule: base64_encode.induct)
  case (1 a b c rest)
  then show ?case by (simp add: Let_def decode_group3 del: base64_decode.simps)
next
  case (2 a b)
  show ?case using decode_group2 [of a b] by (simp add: Let_def del: base64_decode.simps)
next
  case (3 a)
  show ?case using decode_group1 [of a] by (simp add: Let_def del: base64_decode.simps)
next
  case 4
  show ?case by simp
qed

lemma base64_examples:
  "base64_encode hello_bytes = ''SGVsbG8=''"
  "base64_decode ''SGVsbG8='' = hello_bytes"
  by (simp_all add: hello_bytes_def b64_char_def b64_index_def b64_alphabet_def upt_rec)

lemma el_validateInput_strings:
  "el_validateInput t v = Inr u \<Longrightarrow> (\<exists>ts. t = JString ts) \<and> (\<exists>vs. v = JString vs)"
  by (cases t; cases v) (auto simp: el_validateInput_def split: if_splits)

text \<open>
  C9. On an enabled client and an input that passes \<open>_validateInput\<close>, whatever response
  the provider gives to the request, \<open>generateSpeech\<close> makes that one transport call and
  returns the success result whose \<open>audioBase64\<close> is the encoding of the response's bytes:
  decoding it gives exactly those bytes back, and \<open>audioSize\<close> is their number.
\<close>

theorem C9_audio_roundtrip:
  assumes en: "\<not> disabled svc"
    and valid: "el_validateInput text_in (default_to (JString default_voice) voiceId) = Inr ()"
    and resp: "\<forall>cfg. tr (calls s) cfg = Inr resp"
  shows "\<exists>r. generateSpeech svc tr ev text_in voiceId stability similarity s
               = (Inr r, s\<lparr>calls := Suc (calls s)\<rparr>)
           \<and> sp_success r
           \<and> audioBase64 r = base64_encode (data resp)
           \<and> base64_decode (audioBase64 r) = data resp
           \<and> audioSize r = length (data resp)"
proof -
  from valid obtain ts vs where ts: "text_in = JString ts"
    and vs: "default_to (JString default_voice) voiceId = JString vs"
    using el_validateInput_strings by blast
  from valid vs have ok: "truthy (JString vs)" using el_validateInput_voice by fastforce
  from en valid ts vs ok resp show ?thesis
    by (simp add: generateSpeech_def generateSpeech_try_def axios_def Let_def base64_roundtrip)
qed

theorem C9_audio_roundtrip_witness:
  "\<exists>r. generateSpeech el_svc (always_ok hello_bytes) env0 (JString ''Hello world'')
          JUndefined JUndefined JUndefined net0 = (Inr r, net0\<lparr>calls := Suc (calls net0)\<rparr>)
       \<and> sp_success r
       \<and> audioBase64 r = base64_encode hello_bytes
       \<and> base64_decode (audioBase64 r) = hello_bytes
       \<and> audioSize r = length hello_bytes"
proof -
  have en: "\<not> disabled el_svc" by (simp add: el_svc_def ElevenLabsService_new_def)
  have valid: "el_validateInput (JString ''Hello world'')
      (default_to (JString default_voice) JUndefined) = Inr ()"
    by (simp add: el_validateInput_def default_to_def default_voice_def js_trim_def is_ws_def)
  have resp: "\<forall>cfg. (always_ok hello_bytes :: el_transport) (calls net0) cfg
      = Inr \<lparr>status = 200, data = hello_bytes, headers = []\<rparr>"
    by (simp add: always_ok_def)
  from C9_audio_roundtrip [where tr = "always_ok hello_bytes" and s = net0 and ev = env0
      and stability = JUndefined and similarity = JUndefined, OF en valid resp]
  show ?thesis by simp
qed

end
